theory Spec2Isabelle
  imports Main
begin

section \<open>Go values, tokens and the HTTP exchange\<close>

text \<open>
  A Go \<^verbatim>\<open>error\<close> is modelled by its message, the string \<^verbatim>\<open>err.Error()\<close> returns.
  A call that returns \<^verbatim>\<open>(v, err)\<close> is a sum: \<open>Inl err\<close> or \<open>Inr v\<close>.
  A function that can panic returns \<open>Panics msg\<close> or \<open>Returns v\<close>.
\<close>

type_synonym error = string

datatype 'a go = Panics string | Returns 'a

text \<open>\<^verbatim>\<open>time.Time\<close> and \<^verbatim>\<open>time.Duration\<close> are counted in nanoseconds.\<close>

definition Second :: int where
  "Second = 1000000000"

definition Minute :: int where
  "Minute = 60 * Second"

definition Hour :: int where
  "Hour = 60 * Minute"

text \<open>
  The structs \<^verbatim>\<open>Identity\<close> and \<^verbatim>\<open>Login\<close>, with the fields the handlers read and write.
\<close>

record Identity =
  IdType :: string
  Id :: string
  ProviderName :: string
  Name :: string
  Email :: string
  EmailVerified :: bool

record Login =
  LoginIdType :: string
  LoginId :: string
  LoginProviderName :: string
  Timestamp :: string

text \<open>
  The dynamic value of a token claim (\<^verbatim>\<open>interface{}\<close>). \<^verbatim>\<open>NewServer\<close> registers the custom
  fields \<^verbatim>\<open>identities\<close> (\<^verbatim>\<open>[]*Identity\<close>), \<^verbatim>\<open>logins\<close> (\<^verbatim>\<open>map[string][]*Login\<close>) and
  \<^verbatim>\<open>id_token\<close> (\<^verbatim>\<open>string\<close>). Comparing an \<^verbatim>\<open>interface{}\<close> with a string, as Go does it,
  is equality with \<open>JString s\<close>: a value of another dynamic type is different from every string.
\<close>

datatype jval =
    JString string
  | JStrings "string list"
  | JTime int
  | JNumber int
  | JBool bool
  | JIdentities "Identity list"
  | JLogins "(string \<times> Login list) list"
  | JNull

text \<open>A parsed or built \<^verbatim>\<open>jwt.Token\<close>: \<^verbatim>\<open>tok.Get(name)\<close> is \<open>tok name\<close>.\<close>

type_synonym token = "string \<rightharpoonup> jval"

text \<open>\<^verbatim>\<open>Subject()\<close>, \<^verbatim>\<open>Email()\<close> and \<^verbatim>\<open>Name()\<close> return the claim, or the empty string.\<close>

definition stringClaim :: "token \<Rightarrow> string \<Rightarrow> string" where
  "stringClaim tok name = (case tok name of Some (JString s) \<Rightarrow> s | _ \<Rightarrow> [])"

definition Subject :: "token \<Rightarrow> string" where
  "Subject tok = stringClaim tok ''sub''"

definition TokenEmail :: "token \<Rightarrow> string" where
  "TokenEmail tok = stringClaim tok ''email''"

definition TokenName :: "token \<Rightarrow> string" where
  "TokenName tok = stringClaim tok ''name''"

datatype jwk = JWK string

record URL =
  URLHost :: string

record OAuth2TokenResponse =
  AccessToken :: string
  TokenType :: string
  ExpiresIn :: int
  IdToken :: string

record OAuth2AuthRequest =
  ClientId :: string
  RedirectUri :: string
  Scope :: string
  State :: string
  ResponseType :: string
  CodeChallenge :: string

record Validation =
  ValidationId :: string
  ValidationIdType :: string

text \<open>
  The request, after \<^verbatim>\<open>r.ParseForm()\<close>: \<open>Form r key\<close> is the list of values of \<^verbatim>\<open>r.Form[key]\<close>
  (empty for a missing key) and \<open>Cookies r name\<close> is the value of the first cookie of that
  name, as \<^verbatim>\<open>r.Cookie(name)\<close> finds it.
\<close>

record request =
  Method :: string
  Host :: string
  URLPath :: string
  RawQuery :: string
  Form :: "string \<Rightarrow> string list"
  Cookies :: "string \<rightharpoonup> string"

definition FormGet :: "request \<Rightarrow> string \<Rightarrow> string" where
  "FormGet r key = (case Form r key of [] \<Rightarrow> [] | v # _ \<Rightarrow> v)"

definition ErrNoCookie :: error where
  "ErrNoCookie = ''http: named cookie not present''"

definition Cookie :: "request \<Rightarrow> string \<Rightarrow> error + string" where
  "Cookie r name = (case Cookies r name of None \<Rightarrow> Inl ErrNoCookie | Some v \<Rightarrow> Inr v)"

text \<open>
  An \<^verbatim>\<open>http.Cookie\<close> to be set: a negative \<open>MaxAge\<close> deletes the cookie at the user agent.
\<close>

record cookie =
  CookieName :: string
  CookieValue :: string
  MaxAge :: int

text \<open>
  The \<^verbatim>\<open>http.ResponseWriter\<close>. \<open>Status = 0\<close> means that the header has not been written yet.
  Once it has been written, a second \<^verbatim>\<open>WriteHeader\<close> and every later change of the header map
  (\<^verbatim>\<open>Set-Cookie\<close> included) have no effect on the response; a write to the body first writes
  the header with status 200. \<^verbatim>\<open>http.Redirect\<close> is recorded by its \<^verbatim>\<open>Location\<close> header and its
  status (the short HTML body it adds to a GET is left out). Output to \<^verbatim>\<open>os.Stderr\<close> and
  \<^verbatim>\<open>fmt.Println\<close> is no part of the response.
\<close>

record response =
  Status :: nat
  SetCookies :: "cookie list"
  Headers :: "(string \<times> string) list"
  Body :: string

definition WriteHeader :: "response \<Rightarrow> nat \<Rightarrow> response" where
  "WriteHeader w code = (if Status w = 0 then w\<lparr>Status := code\<rparr> else w)"

definition WriteString :: "response \<Rightarrow> string \<Rightarrow> response" where
  "WriteString w s = (let w' = WriteHeader w 200 in w'\<lparr>Body := Body w' @ s\<rparr>)"

definition HeaderSet :: "response \<Rightarrow> string \<Rightarrow> string \<Rightarrow> response" where
  "HeaderSet w k v =
     (if Status w = 0 then w\<lparr>Headers := filter (\<lambda>kv. fst kv \<noteq> k) (Headers w) @ [(k, v)]\<rparr> else w)"

definition SetCookie :: "response \<Rightarrow> cookie \<Rightarrow> response" where
  "SetCookie w c = (if Status w = 0 then w\<lparr>SetCookies := SetCookies w @ [c]\<rparr> else w)"

definition Redirect :: "response \<Rightarrow> string \<Rightarrow> nat \<Rightarrow> response" where
  "Redirect w url code = WriteHeader (HeaderSet w ''Location'' url) code"

text \<open>\<^verbatim>\<open>strings.Split(s, sep)\<close> for a one-character separator: \<^verbatim>\<open>Split("", " ")\<close> is \<^verbatim>\<open>[""]\<close>.\<close>

fun Split :: "string \<Rightarrow> char \<Rightarrow> string list" where
  "Split [] sep = [[]]"
| "Split (c # cs) sep =
     (if c = sep then [] # Split cs sep
      else (case Split cs sep of [] \<Rightarrow> [[c]] | p # ps \<Rightarrow> (c # p) # ps))"

text \<open>
  The struct \<^verbatim>\<open>OAuth2Provider\<close> with the fields the handlers read, the part of
  \<^verbatim>\<open>OAuth2ServerMetadata\<close> they read, and \<^verbatim>\<open>GitHubEmail\<close>.
\<close>

record OAuth2Provider =
  provID :: string
  provName :: string
  provURI :: string
  provClientID :: string
  provClientSecret :: string
  provAuthorizationURI :: string
  provTokenURI :: string
  provScope :: string
  provOpenIDConnect :: bool

record OAuth2ServerMetadata =
  Issuer :: string
  AuthorizationEndpoint :: string
  TokenEndpoint :: string
  UserinfoEndpoint :: string
  JwksUri :: string

record GitHubEmail =
  GitHubEmailEmail :: string
  Primary :: bool
  Verified :: bool

text \<open>A configured user: only handed from \<^verbatim>\<open>GetUsers\<close> to \<^verbatim>\<open>validUser\<close>.\<close>

datatype User = User string

text \<open>The data the \<^verbatim>\<open>/auth\<close> handler hands to the template \<^verbatim>\<open>auth.html\<close>.\<close>

record AuthData =
  dataRootUri :: string
  dataDisplayName :: string
  dataClientId :: string
  dataIdentities :: "Identity list"
  dataRemainingIdentities :: "Identity list"
  dataPreviousLogins :: "Login list"
  dataOAuth2Providers :: "OAuth2Provider list"
  dataLogoMap :: "string \<rightharpoonup> string"
  dataURL :: string
  dataCanEmail :: bool
  dataReturnUri :: string

text \<open>An outgoing HTTP request of the server and the provider's answer.\<close>

record UpstreamRequest =
  upMethod :: string
  upURL :: string
  upHeaders :: "(string \<times> string) list"
  upBody :: string

record UpstreamResponse =
  StatusCode :: nat
  RespBody :: string

section \<open>The collaborators\<close>

text \<open>
  Everything a handler calls that is not in the source files at hand: the Go standard library
  (\<^verbatim>\<open>crypto/sha256\<close>, \<^verbatim>\<open>encoding/base64\<close>, \<^verbatim>\<open>net/url\<close>, \<^verbatim>\<open>encoding/json\<close>, \<^verbatim>\<open>time\<close>), the jwx
  library (\<^verbatim>\<open>jwt.Parse\<close>, \<^verbatim>\<open>jwt.Sign\<close>, \<^verbatim>\<open>Build\<close>, \<^verbatim>\<open>jwk.PublicSetOf\<close>), the storage, and the helper
  functions of the repository whose bodies are elsewhere. Each is a parameter: the theorems
  hold for every behaviour of these functions.
\<close>

record env =
  Prefix :: string
  RootUri :: string
  JWKSet :: "jwk list"
  PublicJwks :: "jwk list"
  ForwardAuthPassthrough :: bool
  OuterErr :: "error option"
  Now :: int
  SHA256 :: "string \<Rightarrow> string"
  Base64RawURL :: "string \<Rightarrow> string"
  urlParse :: "string \<Rightarrow> error + URL"
  PublicSetOf :: "jwk list \<Rightarrow> error + jwk list"
  jwtParse :: "string \<Rightarrow> jwk list \<Rightarrow> error + token"
  jwtSign :: "token \<Rightarrow> jwk \<Rightarrow> error + string"
  BuildError :: "(string \<times> jval) list \<Rightarrow> error option"
  EncodeTokenResponse :: "OAuth2TokenResponse \<Rightarrow> string"
  claimFromToken :: "string \<Rightarrow> token \<Rightarrow> string"
  addLoginToCookie :: "string \<Rightarrow> string \<Rightarrow> Login \<Rightarrow> error + cookie"
  Hash :: "string \<Rightarrow> string"
  DisplayName :: string
  ProviderLogoMap :: "string \<rightharpoonup> string"
  SortSlice :: "Login list \<Rightarrow> Login list"
  GetOAuth2Providers :: "error + OAuth2Provider list"
  GetSmtpConfigError :: "error option"
  setJwtCookie :: "token \<Rightarrow> string \<Rightarrow> int \<Rightarrow> response \<Rightarrow> request \<Rightarrow> response"
  setReturnUriCookie :: "string \<Rightarrow> response \<Rightarrow> response"
  ExecuteTemplate :: "string \<Rightarrow> AuthData \<Rightarrow> string \<times> error option"

text \<open>
  The collaborators of the upstream login handlers: the database, the metadata manager, the
  HTTP client, and the helpers of the repository whose bodies are elsewhere.
\<close>

record upstream =
  ParseJWT :: "string \<Rightarrow> error + token"
  GetOAuth2ProviderByID :: "string \<Rightarrow> error + OAuth2Provider"
  GetMeta :: "string \<Rightarrow> error + OAuth2ServerMetadata"
  GetKeyset :: "string \<Rightarrow> error + jwk list"
  ValuesEncode :: "(string \<times> string) list \<Rightarrow> string"
  httpDo :: "UpstreamRequest \<Rightarrow> error + UpstreamResponse"
  DecodeTokenResponse :: "string \<Rightarrow> error + OAuth2TokenResponse"
  DecodeGitHubEmails :: "string \<Rightarrow> error + GitHubEmail list"
  IsOpenIDToken :: "token \<Rightarrow> bool"
  GetUsers :: "error + User list"
  GetConfigPublic :: "error + bool"
  validUser :: "string \<Rightarrow> User list \<Rightarrow> bool"
  domainToUri :: "string \<Rightarrow> string"
  returnUriOf :: "string \<Rightarrow> error + string"
  addIdentToCookie :: "string \<Rightarrow> string \<Rightarrow> Identity \<Rightarrow> error + cookie"
  setLoginCookieError :: "cookie \<Rightarrow> error option"

text \<open>
  A token builder is the list of its \<^verbatim>\<open>Claim\<close> calls in order; \<^verbatim>\<open>Build()\<close> sets them one
  after the other, so a later call for the same name wins. Whether \<^verbatim>\<open>Build()\<close> fails is the
  library's decision.
\<close>

definition Build :: "env \<Rightarrow> (string \<times> jval) list \<Rightarrow> error + token" where
  "Build env claims =
     (case BuildError env claims of Some err \<Rightarrow> Inl err | None \<Rightarrow> Inr (map_of (rev claims)))"

text \<open>\<^verbatim>\<open>Key(0)\<close> of a key set: the key and whether it exists.\<close>

definition Key0 :: "jwk list \<Rightarrow> jwk option" where
  "Key0 ks = (case ks of [] \<Rightarrow> None | k # _ \<Rightarrow> Some k)"

section \<open>PKCE data\<close>

text \<open>
  \<^verbatim>\<open>GeneratePKCECodeVerifier\<close> draws 64 indices with \<^verbatim>\<open>rand.Int(rand.Reader, 66)\<close>. The
  random source is a state \<open>g\<close> and a function \<open>randInt g max\<close> that returns a number or an
  error, and the next state. \<^verbatim>\<open>chars[k]\<close> panics when \<open>k\<close> is out of range.
\<close>

definition chars :: string where
  "chars = ''0123456789abcdefghijklmnopqrstuvwxyzABCDEFGHIJKLMNOPQRSTUVWXYZ-._~''"

function verifierLoop ::
  "('g \<Rightarrow> nat \<Rightarrow> (error + nat) \<times> 'g) \<Rightarrow> nat \<Rightarrow> string \<Rightarrow> 'g \<Rightarrow> (string \<times> error option) go \<times> 'g"
where
  "verifierLoop randInt i verifier g =
     (if i < 64 then
        (case randInt g (length chars) of
           (Inl err, g') \<Rightarrow> (Returns ([], Some err), g')
         | (Inr randIndex, g') \<Rightarrow>
             if randIndex < length chars
             then verifierLoop randInt (i + 1) (verifier @ [chars ! randIndex]) g'
             else (Panics ''index out of range'', g'))
      else (Returns (verifier, None), g))"
  by pat_completeness auto
termination
  by (relation "measure (\<lambda>(randInt, i, verifier, g). 64 - i)") auto

declare verifierLoop.simps [simp del]

definition GeneratePKCECodeVerifier ::
  "('g \<Rightarrow> nat \<Rightarrow> (error + nat) \<times> 'g) \<Rightarrow> 'g \<Rightarrow> (string \<times> error option) go \<times> 'g" where
  "GeneratePKCECodeVerifier randInt g = verifierLoop randInt 0 [] g"

definition GeneratePKCECodeChallenge :: "env \<Rightarrow> string \<Rightarrow> string" where
  "GeneratePKCECodeChallenge env verifier = Base64RawURL env (SHA256 env verifier)"

definition GeneratePKCEData ::
  "env \<Rightarrow> ('g \<Rightarrow> nat \<Rightarrow> (error + nat) \<times> 'g) \<Rightarrow> 'g \<Rightarrow> (string \<times> string \<times> error option) go \<times> 'g"
where
  "GeneratePKCEData env randInt g =
     (case GeneratePKCECodeVerifier randInt g of
        (Panics msg, g') \<Rightarrow> (Panics msg, g')
      | (Returns (verifier, Some err), g') \<Rightarrow> (Returns ([], [], Some err), g')
      | (Returns (verifier, None), g') \<Rightarrow>
          (Returns (GeneratePKCECodeChallenge env verifier, verifier, None), g'))"

text \<open>The unreserved characters \<^verbatim>\<open>[A-Za-z0-9-._~]\<close>, as the specification lists them.\<close>

definition unreserved :: "char \<Rightarrow> bool" where
  "unreserved c \<longleftrightarrow>
     (let n = (of_char c :: nat)
      in (65 \<le> n \<and> n \<le> 90) \<or> (97 \<le> n \<and> n \<le> 122) \<or> (48 \<le> n \<and> n \<le> 57))
     \<or> c \<in> set ''-._~''"

section \<open>The token endpoint\<close>

text \<open>The end of the \<^verbatim>\<open>/token\<close> handler, after the PKCE check: the access token and the reply.\<close>

definition tokenIssue :: "env \<Rightarrow> token \<Rightarrow> string \<Rightarrow> response \<Rightarrow> response" where
  "tokenIssue env parsedCodeJwt signedIdToken w =
     (case Key0 (JWKSet env) of
        None \<Rightarrow> WriteHeader w 500
      | Some key \<Rightarrow>
          (let issuedAt = Now env in
           case Build env [(''iat'', JTime issuedAt),
                           (''exp'', JTime (issuedAt + 16 * Second)),
                           (''sub'', JString (Subject parsedCodeJwt))] of
             Inl err \<Rightarrow> WriteString (WriteHeader w 400) err
           | Inr accessTokenJwt \<Rightarrow>
               (case jwtSign env accessTokenJwt key of
                  Inl err \<Rightarrow> WriteString (WriteHeader w 400) err
                | Inr signedAccessToken \<Rightarrow>
                    (let w1 = HeaderSet w ''Access-Control-Allow-Origin'' ''*'';
                         w2 = HeaderSet w1 ''Content-Type'' ''application/json;charset=UTF-8'';
                         w3 = HeaderSet w2 ''Cache-Control'' ''no-store'';
                         tokenRes = \<lparr>AccessToken = signedAccessToken, TokenType = ''bearer'',
                                     ExpiresIn = 3600, IdToken = signedIdToken\<rparr>
                     in WriteString w3 (EncodeTokenResponse env tokenRes)))))"

definition tokenHandler :: "env \<Rightarrow> request \<Rightarrow> response \<Rightarrow> response" where
  "tokenHandler env r w =
     (let codeJwt = FormGet r ''code'' in
      case jwtParse env codeJwt (PublicJwks env) of
        Inl err \<Rightarrow> WriteString (WriteHeader w 401) err
      | Inr parsedCodeJwt \<Rightarrow>
          (case parsedCodeJwt ''id_token'' of
             None \<Rightarrow> WriteString (WriteHeader w 401) ''Invalid id_token in code''
           | Some signedIdTokenIface \<Rightarrow>
               (case signedIdTokenIface of
                  JString signedIdToken \<Rightarrow>
                    (case parsedCodeJwt ''pkce_code_challenge'' of
                       None \<Rightarrow> WriteString (WriteHeader w 401) ''Invalid pkce_code_challenge in code''
                     | Some pkceCodeChallenge \<Rightarrow>
                         (let pkceCodeVerifier = FormGet r ''code_verifier'' in
                          if pkceCodeChallenge \<noteq> JString [] then
                            (let challenge = GeneratePKCECodeChallenge env pkceCodeVerifier in
                             if JString challenge \<noteq> pkceCodeChallenge
                             then WriteString (WriteHeader w 401) ''Invalid code_verifier''
                             else tokenIssue env parsedCodeJwt signedIdToken w)
                          else if pkceCodeVerifier \<noteq> []
                          then WriteString (WriteHeader w 401)
                                 ''code_verifier provided for request that did not include code_challenge''
                          else tokenIssue env parsedCodeJwt signedIdToken w))
                | _ \<Rightarrow> WriteString (WriteHeader w 401) ''Invalid id_token in code'')))"

section \<open>The validator\<close>

definition checkErrPassthrough :: "error \<Rightarrow> bool \<Rightarrow> Validation option \<times> error option" where
  "checkErrPassthrough err passthrough = (if passthrough then (None, None) else (None, Some err))"

text \<open>
  \<^verbatim>\<open>validate\<close>: the last step reads \<^verbatim>\<open>tokIdents[0]\<close>, which panics on an empty slice.
\<close>

definition validate :: "env \<Rightarrow> request \<Rightarrow> (Validation option \<times> error option) go" where
  "validate env r =
     (let passthrough = ForwardAuthPassthrough env;
          loginKeyName = Prefix env @ ''login_key''
      in case Cookie r loginKeyName of
           Inl err \<Rightarrow> Returns (checkErrPassthrough err passthrough)
         | Inr loginKeyCookie \<Rightarrow>
             (case PublicSetOf env (JWKSet env) of
                Inl err \<Rightarrow> Returns (checkErrPassthrough err passthrough)
              | Inr publicJwks \<Rightarrow>
                  (case jwtParse env loginKeyCookie publicJwks of
                     Inl err \<Rightarrow> Returns (checkErrPassthrough err passthrough)
                   | Inr parsed \<Rightarrow>
                       (case parsed ''identities'' of
                          None \<Rightarrow> Returns (checkErrPassthrough ''No identities'' passthrough)
                        | Some tokIdentsInterface \<Rightarrow>
                            (case tokIdentsInterface of
                               JIdentities tokIdents \<Rightarrow>
                                 (case tokIdents of
                                    [] \<Rightarrow> Panics ''index out of range [0] with length 0''
                                  | ident # _ \<Rightarrow>
                                      Returns (Some \<lparr>ValidationId = Id ident,
                                                     ValidationIdType = IdType ident\<rparr>, None))
                             | _ \<Rightarrow> Returns (checkErrPassthrough ''No identities'' passthrough))))))"

section \<open>Helpers of the repository that the handlers call\<close>

text \<open>
  Modelled from the spec: the body of \<^verbatim>\<open>clearCookie\<close> is not among the source files. The
  specification has the server delete an envelope cookie after consumption ("Load and clear
  the AuthRequest cookie", "clear the UpstreamRequest cookie"): the helper emits a
  \<^verbatim>\<open>Set-Cookie\<close> of that name with an empty value that deletes the cookie.
\<close>

definition clearCookie :: "string \<Rightarrow> response \<Rightarrow> response" where
  "clearCookie cookieName w =
     SetCookie w \<lparr>CookieName = cookieName, CookieValue = [], MaxAge = - 1\<rparr>"

text \<open>
  Modelled from the spec: the body of \<^verbatim>\<open>getJwtFromCookie\<close> is not among the source files.
  It loads the named cookie from the request and parses it as an envelope of the server
  (signature and expiry, against the public key set); it writes nothing to the response.
\<close>

definition getJwtFromCookie :: "env \<Rightarrow> string \<Rightarrow> request \<Rightarrow> error + token" where
  "getJwtFromCookie env cookieKey r =
     (case Cookie r cookieKey of
        Inl err \<Rightarrow> Inl err
      | Inr v \<Rightarrow> jwtParse env v (PublicJwks env))"

section \<open>The authorization endpoint\<close>

definition ParseAuthRequest ::
  "env \<Rightarrow> response \<Rightarrow> request \<Rightarrow> response \<times> (error + OAuth2AuthRequest)" where
  "ParseAuthRequest env w r =
     (let clientId = FormGet r ''client_id'' in
      if clientId = [] then
        (WriteString (WriteHeader w 400) ''client_id missing'', Inl ''client_id missing'')
      else
        (let redirectUri = FormGet r ''redirect_uri'' in
         if redirectUri = [] then
           (WriteString (WriteHeader w 400) ''redirect_uri missing'', Inl ''redirect_uri missing'')
         else
           (case urlParse env clientId of
              Inl err \<Rightarrow>
                (WriteString (WriteHeader w 400) ''client_id is not a valid URI'',
                 Inl ''client_id is not a valid URI'')
            | Inr parsedClientIdUri \<Rightarrow>
                (case urlParse env redirectUri of
                   Inl err \<Rightarrow>
                     (WriteString (WriteHeader w 400) ''redirect_uri is not a valid URI'',
                      Inl ''redirect_uri is not a valid URI'')
                 | Inr parsedRedirectUri \<Rightarrow>
                     if URLHost parsedClientIdUri \<noteq> URLHost parsedRedirectUri then
                       (WriteString (WriteHeader w 400)
                          ''redirect_uri must be on the same domain as client_id'',
                        Inl ''redirect_uri must be on the same domain as client_id'')
                     else
                       (let scope = FormGet r ''scope'';
                            state = FormGet r ''state'';
                            promptParam = FormGet r ''prompt''
                        in if promptParam = ''none'' then
                             (Redirect w (redirectUri @ ''?error=interaction_required&state='' @ state) 303,
                              Inl ''interaction required'')
                           else
                             (let responseType = FormGet r ''response_type'' in
                              if responseType = [] then
                                (Redirect w (redirectUri @ ''?error=unsupported_response_type&state='' @ state) 303,
                                 Inl ''unsupported_response_type'')
                              else
                                (let pkceCodeChallenge = FormGet r ''code_challenge'' in
                                 (w, Inr \<lparr>ClientId = clientId, RedirectUri = redirectUri,
                                          Scope = scope, State = state,
                                          ResponseType = responseType,
                                          CodeChallenge = pkceCodeChallenge\<rparr>))))))))"

text \<open>
  The identities, the logins and the hash of the login-key cookie, as the \<^verbatim>\<open>/auth\<close> handler
  reads them: an invalid cookie counts as no identities.
\<close>

definition authSession :: "env \<Rightarrow> request \<Rightarrow> Identity list \<times> (string \<times> Login list) list \<times> string" where
  "authSession env r =
     (case Cookie r (Prefix env @ ''login_key'') of
        Inl err \<Rightarrow> ([], [], [])
      | Inr v \<Rightarrow>
          if v \<noteq> [] then
            (case jwtParse env v (PublicJwks env) of
               Inl err \<Rightarrow> ([], [], Hash env v)
             | Inr parsed \<Rightarrow>
                 ((case parsed ''identities'' of Some (JIdentities tokIdents) \<Rightarrow> tokIdents | _ \<Rightarrow> []),
                  (case parsed ''logins'' of Some (JLogins tokLogins) \<Rightarrow> tokLogins | _ \<Rightarrow> []),
                  Hash env v))
          else ([], [], []))"

text \<open>
  The \<^verbatim>\<open>/auth\<close> handler after \<^verbatim>\<open>ParseAuthRequest\<close> has accepted the request. The order of
  equal timestamps after \<^verbatim>\<open>sort.Slice\<close> is the library's; what \<^verbatim>\<open>setJwtCookie\<close>,
  \<^verbatim>\<open>setReturnUriCookie\<close> and the template do to the response is theirs.
\<close>

definition authPage :: "env \<Rightarrow> OAuth2AuthRequest \<Rightarrow> request \<Rightarrow> response \<Rightarrow> response" where
  "authPage env ar r w =
     (case authSession env r of (identities, logins, hashedLoginKey) \<Rightarrow>
        (let previousLogins =
               SortSlice env (case map_of logins (ClientId ar) of None \<Rightarrow> [] | Some ls \<Rightarrow> ls);
             remainingIdents =
               filter (\<lambda>ident. \<not> list_ex (\<lambda>login. LoginId login = Id ident
                                  \<and> LoginProviderName login = ProviderName ident) previousLogins)
                 identities;
             maxAge = 8 * Minute;
             issuedAt = Now env
         in case Build env [(''iat'', JTime issuedAt),
                            (''exp'', JTime (issuedAt + maxAge)),
                            (''login_key_hash'', JString hashedLoginKey),
                            (''client_id'', JString (ClientId ar)),
                            (''redirect_uri'', JString (RedirectUri ar)),
                            (''state'', JString (State ar)),
                            (''scope'', JString (FormGet r ''scope'')),
                            (''nonce'', JString (FormGet r ''nonce'')),
                            (''pkce_code_challenge'', JString (FormGet r ''code_challenge'')),
                            (''response_type'', JString (ResponseType ar))] of
              Inl err \<Rightarrow> WriteString (WriteHeader w 500) err
            | Inr authRequestJwt \<Rightarrow>
                (let w1 = setJwtCookie env authRequestJwt (Prefix env @ ''auth_request'') maxAge w r in
                 case GetOAuth2Providers env of
                   Inl err \<Rightarrow> WriteString (WriteHeader w1 500) err
                 | Inr providers \<Rightarrow>
                     (let canEmail = (GetSmtpConfigError env = None) in
                      case urlParse env (ClientId ar) of
                        Inl err \<Rightarrow> WriteString (WriteHeader w1 400) err
                      | Inr parsedClientId \<Rightarrow>
                          (let returnUri = URLPath r @ ''?'' @ RawQuery r;
                               data = \<lparr>dataRootUri = RootUri env,
                                       dataDisplayName = DisplayName env,
                                       dataClientId = URLHost parsedClientId,
                                       dataIdentities = identities,
                                       dataRemainingIdentities = remainingIdents,
                                       dataPreviousLogins = previousLogins,
                                       dataOAuth2Providers = providers,
                                       dataLogoMap = ProviderLogoMap env,
                                       dataURL = [],
                                       dataCanEmail = canEmail,
                                       dataReturnUri = returnUri\<rparr>;
                               w2 = setReturnUriCookie env returnUri w1
                           in case ExecuteTemplate env ''auth.html'' data of
                                (out, None) \<Rightarrow> (if out = [] then w2 else WriteString w2 out)
                              | (out, Some err) \<Rightarrow>
                                  WriteString
                                    (WriteHeader (if out = [] then w2 else WriteString w2 out) 500)
                                    err)))))"

definition authHandler :: "env \<Rightarrow> request \<Rightarrow> response \<Rightarrow> response" where
  "authHandler env r w =
     (case ParseAuthRequest env w r of
        (w1, Inl err) \<Rightarrow> w1
      | (w1, Inr ar) \<Rightarrow> authPage env ar r w1)"

section \<open>The approval endpoint\<close>

text \<open>The loop over the scope parts: (\<^verbatim>\<open>emailRequested\<close>, \<^verbatim>\<open>profileRequested\<close>).\<close>

fun scopeLoop :: "string list \<Rightarrow> bool \<times> bool \<Rightarrow> bool \<times> bool" where
  "scopeLoop [] flags = flags"
| "scopeLoop (scopePart # rest) (emailRequested, profileRequested) =
     scopeLoop rest
       (if scopePart = ''email'' then True else emailRequested,
        if scopePart = ''profile'' then True else profileRequested)"

text \<open>The calls on \<^verbatim>\<open>idTokenBuilder\<close>, in order.\<close>

definition idTokenClaims ::
  "env \<Rightarrow> string \<Rightarrow> Identity \<Rightarrow> token \<Rightarrow> string \<Rightarrow> int \<Rightarrow> (string \<times> jval) list" where
  "idTokenClaims env identId identity parsedAuthReq clientId issuedAt =
     (let scope = claimFromToken env ''scope'' parsedAuthReq;
          scopeParts = Split scope CHR '' '';
          flags = scopeLoop scopeParts (False, False);
          emailRequested = fst flags;
          profileRequested = snd flags;
          expiresAt = issuedAt + 24 * Hour
      in [(''sub'', JString identId),
          (''aud'', JStrings [clientId]),
          (''iss'', JString (RootUri env)),
          (''iat'', JTime issuedAt),
          (''exp'', JTime expiresAt),
          (''nonce'', JString (claimFromToken env ''nonce'' parsedAuthReq))]
         @ (if emailRequested
            then [(''email'', JString (Email identity)),
                  (''email_verified'', JBool (EmailVerified identity))]
            else [])
         @ (if profileRequested \<and> Name identity \<noteq> []
            then [(''name'', JString (Name identity))]
            else []))"

text \<open>The calls on the builder of the authorization code.\<close>

definition codeClaims :: "env \<Rightarrow> token \<Rightarrow> string \<Rightarrow> token \<Rightarrow> int \<Rightarrow> (string \<times> jval) list" where
  "codeClaims env idToken signedIdToken parsedAuthReq issuedAt =
     [(''iat'', JTime issuedAt),
      (''exp'', JTime (issuedAt + 16 * Second)),
      (''sub'', JString (TokenEmail idToken)),
      (''id_token'', JString signedIdToken),
      (''pkce_code_challenge'', JString (claimFromToken env ''pkce_code_challenge'' parsedAuthReq))]"

text \<open>
  The \<^verbatim>\<open>/approve\<close> handler once the identity is found. Beside the response it returns the ID
  token and the code envelope it has built, when it reaches the redirect.
\<close>

definition approveGrant ::
  "env \<Rightarrow> response \<Rightarrow> string \<Rightarrow> token \<Rightarrow> string \<Rightarrow> Identity \<Rightarrow> response \<times> (token \<times> token) option"
where
  "approveGrant env w loginKeyCookie parsedAuthReq identId identity =
     (let clientId = claimFromToken env ''client_id'' parsedAuthReq;
          newLogin = \<lparr>LoginIdType = ''email'', LoginId = Id identity,
                      LoginProviderName = ProviderName identity, Timestamp = []\<rparr>
      in case addLoginToCookie env loginKeyCookie clientId newLogin of
           Inl err \<Rightarrow> (WriteHeader w 500, None)
         | Inr newLoginCookie \<Rightarrow>
             (let w1 = SetCookie w newLoginCookie;
                  issuedAt = Now env
              in case Build env (idTokenClaims env identId identity parsedAuthReq clientId issuedAt) of
                   Inl err \<Rightarrow> (WriteHeader w1 500, None)
                 | Inr idToken \<Rightarrow>
                     (case Key0 (JWKSet env) of
                        None \<Rightarrow> (WriteHeader w1 500, None)
                      | Some key \<Rightarrow>
                          (case jwtSign env idToken key of
                             Inl err \<Rightarrow> (WriteHeader w1 500, None)
                           | Inr signedIdToken \<Rightarrow>
                               (case Build env (codeClaims env idToken signedIdToken parsedAuthReq issuedAt) of
                                  Inl err \<Rightarrow> (WriteString (WriteHeader w1 500) err, None)
                                | Inr codeJwt \<Rightarrow>
                                    (case jwtSign env codeJwt key of
                                       Inl err \<Rightarrow> (WriteString (WriteHeader w1 400) err, None)
                                     | Inr signedCode \<Rightarrow>
                                         (let responseType = claimFromToken env ''response_type'' parsedAuthReq in
                                          if responseType = ''none'' then
                                            (Redirect w1 (claimFromToken env ''redirect_uri'' parsedAuthReq) 303,
                                             Some (idToken, codeJwt))
                                          else
                                            (Redirect w1
                                               (claimFromToken env ''redirect_uri'' parsedAuthReq
                                                @ ''?client_id='' @ claimFromToken env ''client_id'' parsedAuthReq
                                                @ ''&redirect_uri='' @ claimFromToken env ''redirect_uri'' parsedAuthReq
                                                @ ''&code='' @ signedCode
                                                @ ''&state='' @ claimFromToken env ''state'' parsedAuthReq
                                                @ ''&scope='' @ claimFromToken env ''scope'' parsedAuthReq)
                                               303,
                                             Some (idToken, codeJwt)))))))))"

text \<open>The identity of the login-key envelope whose \<^verbatim>\<open>Id\<close> is the submitted one, if any.\<close>

definition ownedIdentity :: "token \<Rightarrow> string \<Rightarrow> Identity option" where
  "ownedIdentity parsedLoginKey identId =
     (case parsedLoginKey ''identities'' of
        Some (JIdentities tokIdents) \<Rightarrow> find (\<lambda>ident. Id ident = identId) tokIdents
      | _ \<Rightarrow> None)"

text \<open>
  The \<^verbatim>\<open>/approve\<close> handler. For another method than POST it writes 405 and then calls
  \<^verbatim>\<open>err.Error()\<close> on the \<^verbatim>\<open>err\<close> of the enclosing function, which panics when that is nil.
\<close>

definition approveRun ::
  "env \<Rightarrow> request \<Rightarrow> response \<Rightarrow> (response \<times> (token \<times> token) option) go" where
  "approveRun env r w =
     (if Method r \<noteq> ''POST'' then
        (case OuterErr env of
           None \<Rightarrow> Panics ''invalid memory address or nil pointer dereference''
         | Some err \<Rightarrow> Returns (WriteString (WriteHeader w 405) err, None))
      else
        (case Cookie r (Prefix env @ ''login_key'') of
           Inl err \<Rightarrow>
             Returns (WriteString (WriteHeader w 401)
                        ''Only logged-in users can access this endpoint'', None)
         | Inr loginKeyCookie \<Rightarrow>
             (case jwtParse env loginKeyCookie (PublicJwks env) of
                Inl err \<Rightarrow> Returns (WriteString (WriteHeader w 401) err, None)
              | Inr parsedLoginKey \<Rightarrow>
                  (let w1 = clearCookie (Prefix env @ ''auth_request'') w in
                   case getJwtFromCookie env (Prefix env @ ''auth_request'') r of
                     Inl err \<Rightarrow> Returns (WriteString (WriteHeader w1 401) err, None)
                   | Inr parsedAuthReq \<Rightarrow>
                       (let identId = FormGet r ''identity_id'' in
                        case ownedIdentity parsedLoginKey identId of
                          None \<Rightarrow>
                            Returns (WriteString (WriteHeader w1 403)
                                       ''You don't have permissions for this identity'', None)
                        | Some identity \<Rightarrow>
                            Returns (approveGrant env w1 loginKeyCookie parsedAuthReq identId identity))))))"

definition approveHandler :: "env \<Rightarrow> request \<Rightarrow> response \<Rightarrow> response go" where
  "approveHandler env r w =
     (case approveRun env r w of
        Panics msg \<Rightarrow> Panics msg
      | Returns (w', built) \<Rightarrow> Returns w')"

text \<open>
  The value a call returns, if it does not panic; the ID token and the code envelope of a run
  of \<^verbatim>\<open>/approve\<close>; a claim of a token that may be absent.
\<close>

definition returned :: "'a go \<Rightarrow> 'a option" where
  "returned x = (case x of Panics msg \<Rightarrow> None | Returns v \<Rightarrow> Some v)"

definition approveIdToken :: "env \<Rightarrow> request \<Rightarrow> response \<Rightarrow> token option" where
  "approveIdToken env r w =
     (case approveRun env r w of
        Returns (w', Some (idToken, codeJwt)) \<Rightarrow> Some idToken
      | _ \<Rightarrow> None)"

definition approveCode :: "env \<Rightarrow> request \<Rightarrow> response \<Rightarrow> token option" where
  "approveCode env r w =
     (case approveRun env r w of
        Returns (w', Some (idToken, codeJwt)) \<Rightarrow> Some codeJwt
      | _ \<Rightarrow> None)"

definition claimOf :: "token option \<Rightarrow> string \<Rightarrow> jval option" where
  "claimOf tok name = (case tok of None \<Rightarrow> None | Some t \<Rightarrow> t name)"


section \<open>The upstream login: the callback\<close>

text \<open>
  Modelled from the spec: the body of \<^verbatim>\<open>getReturnUriCookie\<close> is not among the source files.
  The specification names the cookie \<^verbatim>\<open><prefix>return_uri\<close>, the target to bounce back to
  after the upstream login: the helper reads that cookie of the request and decodes it.
\<close>

definition getReturnUriCookie :: "env \<Rightarrow> upstream \<Rightarrow> request \<Rightarrow> error + string" where
  "getReturnUriCookie env up r =
     (case Cookie r (Prefix env @ ''return_uri'') of
        Inl err \<Rightarrow> Inl err
      | Inr v \<Rightarrow> returnUriOf up v)"

text \<open>
  Modelled from the spec: the body of \<^verbatim>\<open>getLoginCookie\<close> is not among the source files. The
  session cookie is \<^verbatim>\<open><prefix>login_key\<close>: the helper reads it from the request.
\<close>

definition getLoginCookie :: "env \<Rightarrow> request \<Rightarrow> error + string" where
  "getLoginCookie env r = Cookie r (Prefix env @ ''login_key'')"

text \<open>
  Modelled from the spec: the body of \<^verbatim>\<open>deleteReturnUriCookie\<close> is not among the source
  files. The login consumes the return-URI cookie: the helper emits its deletion.
\<close>

definition deleteReturnUriCookie :: "env \<Rightarrow> response \<Rightarrow> response" where
  "deleteReturnUriCookie env w = clearCookie (Prefix env @ ''return_uri'') w"

text \<open>
  Modelled from the spec: the body of \<^verbatim>\<open>setLoginCookie\<close> is not among the source files. It
  sets the new session cookie on the response, or fails and sets nothing.
\<close>

definition setLoginCookie :: "upstream \<Rightarrow> response \<Rightarrow> cookie \<Rightarrow> response \<times> error option" where
  "setLoginCookie up w c =
     (case setLoginCookieError up c of
        Some err \<Rightarrow> (w, Some err)
      | None \<Rightarrow> (SetCookie w c, None))"

text \<open>
  \<^verbatim>\<open>GetProfile\<close>: (\<^verbatim>\<open>provider.URI\<close>, email, error). \<^verbatim>\<open>http.NewRequest\<close> fails when the URL
  does not parse.
\<close>

definition GetProfile ::
  "env \<Rightarrow> upstream \<Rightarrow> OAuth2Provider \<Rightarrow> string \<Rightarrow> string \<times> string \<times> error option" where
  "GetProfile env up provider accessToken =
     (if provID provider = ''github'' then
        (case urlParse env ''https://api.github.com/user/emails'' of
           Inl err \<Rightarrow> ([], [], Some err)
         | Inr u \<Rightarrow>
             (case httpDo up \<lparr>upMethod = ''GET'', upURL = ''https://api.github.com/user/emails'',
                               upHeaders = [(''Authorization'', ''Bearer '' @ accessToken)],
                               upBody = []\<rparr> of
                Inl err \<Rightarrow> ([], [], Some err)
              | Inr resp \<Rightarrow>
                  if StatusCode resp \<noteq> 200 then ([], [], Some ''Bad status getting profile'')
                  else
                    (case DecodeGitHubEmails up (RespBody resp) of
                       Inl err \<Rightarrow> ([], [], Some err)
                     | Inr profileResponse \<Rightarrow>
                         (case find Primary profileResponse of
                            Some email \<Rightarrow> (provURI provider, GitHubEmailEmail email, None)
                          | None \<Rightarrow> ([], [], Some ''Unknown GetProfile error'')))))
      else ([], [], Some ''Unknown GetProfile error''))"

text \<open>
  The \<^verbatim>\<open>/callback\<close> handler in four parts, each a function of the variables that are live
  where it starts. A part that ends the request returns \<open>Inl\<close> of the final response.

  The code exchange: the token endpoint, the request to it and the decoded answer.
\<close>

definition callbackExchange ::
  "env \<Rightarrow> upstream \<Rightarrow> request \<Rightarrow> OAuth2Provider \<Rightarrow> token \<Rightarrow> response
     \<Rightarrow> response + OAuth2TokenResponse" where
  "callbackExchange env up r oauth2Provider parsedUpstreamAuthReq w =
     (let providerCode = FormGet r ''code'';
          callbackUri = domainToUri up (Host r) @ ''/callback'';
          body = [(''code'', providerCode),
                  (''client_id'', provClientID oauth2Provider),
                  (''client_secret'', provClientSecret oauth2Provider),
                  (''redirect_uri'', callbackUri),
                  (''grant_type'', ''authorization_code''),
                  (''code_verifier'', claimFromToken env ''pkce_code_verifier'' parsedUpstreamAuthReq)]
      in case (if provOpenIDConnect oauth2Provider then
                 (if provID oauth2Provider = ''facebook'' then Inr (provTokenURI oauth2Provider)
                  else (case GetMeta up (provID oauth2Provider) of
                          Inl err \<Rightarrow> Inl (WriteString (WriteHeader w 500) err)
                        | Inr meta \<Rightarrow> Inr (TokenEndpoint meta)))
               else Inr (provTokenURI oauth2Provider)) of
           Inl w' \<Rightarrow> Inl w'
         | Inr tokenEndpoint \<Rightarrow>
             (case urlParse env tokenEndpoint of
                Inl err \<Rightarrow> Inl (WriteHeader w 500)
              | Inr u \<Rightarrow>
                  (case httpDo up \<lparr>upMethod = ''POST'', upURL = tokenEndpoint,
                                    upHeaders = [(''Content-Type'', ''application/x-www-form-urlencoded''),
                                                 (''Accept'', ''application/json'')],
                                    upBody = ValuesEncode up body\<rparr> of
                     Inl err \<Rightarrow> Inl (WriteHeader w 500)
                   | Inr resp \<Rightarrow>
                       if StatusCode resp \<noteq> 200 then Inl (WriteHeader w 500)
                       else
                         (case DecodeTokenResponse up (RespBody resp) of
                            Inl err \<Rightarrow> Inl (WriteHeader w 500)
                          | Inr tokenRes \<Rightarrow> Inr tokenRes))))"

text \<open>
  The verification: for an OpenID Connect provider the ID token and its nonce, for another
  provider the profile. It yields (\<^verbatim>\<open>email\<close>, \<^verbatim>\<open>name\<close>). The error of \<^verbatim>\<open>GetProfile\<close> is
  assigned to the blank identifier.
\<close>

definition callbackVerify ::
  "env \<Rightarrow> upstream \<Rightarrow> OAuth2Provider \<Rightarrow> token \<Rightarrow> OAuth2TokenResponse \<Rightarrow> response
     \<Rightarrow> response + (string \<times> string)" where
  "callbackVerify env up oauth2Provider parsedUpstreamAuthReq tokenRes w =
     (if provOpenIDConnect oauth2Provider then
        (case GetKeyset up (provID oauth2Provider) of
           Inl err \<Rightarrow> Inl (WriteHeader w 500)
         | Inr keyset \<Rightarrow>
             (case jwtParse env (IdToken tokenRes) keyset of
                Inl err \<Rightarrow> Inl (WriteHeader w 500)
              | Inr providerOidcToken \<Rightarrow>
                  if \<not> IsOpenIDToken up providerOidcToken then Inl (WriteHeader w 500)
                  else
                    (case providerOidcToken ''nonce'' of
                       None \<Rightarrow> Inl (WriteHeader w 400)
                     | Some nonceClaim \<Rightarrow>
                         (case nonceClaim of
                            JString nonce \<Rightarrow>
                              if claimFromToken env ''nonce'' parsedUpstreamAuthReq \<noteq> nonce
                              then Inl (WriteHeader w 403)
                              else Inr (TokenEmail providerOidcToken, TokenName providerOidcToken)
                          | _ \<Rightarrow> Inl (WriteHeader w 400)))))
      else
        (case GetProfile env up oauth2Provider (AccessToken tokenRes) of
           (uri, email, err) \<Rightarrow> Inr (email, [])))"

text \<open>The end: the access gate, the new identity in the session cookie, the redirect.\<close>

definition callbackFinish ::
  "env \<Rightarrow> upstream \<Rightarrow> request \<Rightarrow> OAuth2Provider \<Rightarrow> string \<Rightarrow> string \<Rightarrow> response \<Rightarrow> response"
where
  "callbackFinish env up r oauth2Provider email name w =
     (case GetUsers up of
        Inl err \<Rightarrow> WriteHeader w 500
      | Inr users \<Rightarrow>
          (case getReturnUriCookie env up r of
             Inl err \<Rightarrow> WriteHeader w 500
           | Inr returnUri \<Rightarrow>
               (case GetConfigPublic up of
                  Inl err \<Rightarrow> WriteHeader w 500
                | Inr public \<Rightarrow>
                    if \<not> public \<and> \<not> validUser up email users then
                      Redirect w (domainToUri up (Host r) @ ''/no-account?'' @ returnUri) 303
                    else
                      (let w1 = deleteReturnUriCookie env w;
                           cookieValue = (case getLoginCookie env r of Inl err \<Rightarrow> [] | Inr v \<Rightarrow> v);
                           newIdent = \<lparr>IdType = ''email'', Id = email,
                                       ProviderName = provName oauth2Provider, Name = name,
                                       Email = email, EmailVerified = True\<rparr>
                       in case addIdentToCookie up (Host r) cookieValue newIdent of
                            Inl err \<Rightarrow> WriteHeader w1 500
                          | Inr cookie \<Rightarrow>
                              (case setLoginCookie up w1 cookie of
                                 (w2, Some err) \<Rightarrow> WriteHeader w2 500
                               | (w2, None) \<Rightarrow>
                                   Redirect
                                     (clearCookie (Prefix env @ ''upstream_oauth2_request'') w2)
                                     returnUri 303)))))"

text \<open>The handler once the UpstreamRequest envelope is parsed.\<close>

definition callbackFrom :: "env \<Rightarrow> upstream \<Rightarrow> request \<Rightarrow> token \<Rightarrow> response \<Rightarrow> response" where
  "callbackFrom env up r parsedUpstreamAuthReq w =
     (case GetOAuth2ProviderByID up (claimFromToken env ''provider_id'' parsedUpstreamAuthReq) of
        Inl err \<Rightarrow> WriteString (WriteHeader w 500) err
      | Inr oauth2Provider \<Rightarrow>
          (case callbackExchange env up r oauth2Provider parsedUpstreamAuthReq w of
             Inl w' \<Rightarrow> w'
           | Inr tokenRes \<Rightarrow>
               (case callbackVerify env up oauth2Provider parsedUpstreamAuthReq tokenRes w of
                  Inl w' \<Rightarrow> w'
                | Inr (email, name) \<Rightarrow> callbackFinish env up r oauth2Provider email name w)))"

definition callbackHandler :: "env \<Rightarrow> upstream \<Rightarrow> request \<Rightarrow> response \<Rightarrow> response" where
  "callbackHandler env up r w =
     (case Cookie r (Prefix env @ ''upstream_oauth2_request'') of
        Inl err \<Rightarrow> WriteString (WriteHeader w 500) err
      | Inr upstreamAuthReqCookie \<Rightarrow>
          (case ParseJWT up upstreamAuthReqCookie of
             Inl err \<Rightarrow> WriteString (WriteHeader w 500) err
           | Inr parsedUpstreamAuthReq \<Rightarrow> callbackFrom env up r parsedUpstreamAuthReq w))"

section \<open>A concrete world\<close>

text \<open>
  A small deterministic instance of the collaborators, on which the handlers can be run: the
  random source reads a list of numbers, a token is "parsed" by looking its text up in a table.
\<close>

fun listReader :: "nat list \<Rightarrow> nat \<Rightarrow> (error + nat) \<times> nat list" where
  "listReader [] m = (Inl ''EOF'', [])"
| "listReader (x # xs) m = (Inr (x mod m), xs)"

definition codeGood :: token where
  "codeGood = [''sub'' \<mapsto> JString ''alice@example.com'', ''id_token'' \<mapsto> JString ''idt'',
               ''pkce_code_challenge'' \<mapsto> JString ''b64:sha:v1'']"

definition codeNoPkce :: token where
  "codeNoPkce = [''sub'' \<mapsto> JString ''alice@example.com'', ''id_token'' \<mapsto> JString ''idt'',
                 ''pkce_code_challenge'' \<mapsto> JString []]"

definition codeEmptyHash :: token where
  "codeEmptyHash = [''sub'' \<mapsto> JString ''alice@example.com'', ''id_token'' \<mapsto> JString ''idt'',
                    ''pkce_code_challenge'' \<mapsto> JString ''b64:sha:'']"

definition sessionEmpty :: token where
  "sessionEmpty = [''identities'' \<mapsto> JIdentities []]"

definition alice :: Identity where
  "alice = \<lparr>IdType = ''email'', Id = ''alice@example.com'', ProviderName = ''google'',
            Name = ''Alice'', Email = ''alice@example.com'', EmailVerified = True\<rparr>"

definition sessionAlice :: token where
  "sessionAlice = [''identities'' \<mapsto> JIdentities [alice]]"

definition authReqOpenid :: token where
  "authReqOpenid = [''client_id'' \<mapsto> JString ''https://rp.example'',
                    ''redirect_uri'' \<mapsto> JString ''https://rp.example/cb'',
                    ''state'' \<mapsto> JString ''S1'', ''scope'' \<mapsto> JString ''openid'',
                    ''nonce'' \<mapsto> JString ''N1'', ''pkce_code_challenge'' \<mapsto> JString ''C1'',
                    ''response_type'' \<mapsto> JString ''code'']"

definition authReqFull :: token where
  "authReqFull = authReqOpenid(''scope'' \<mapsto> JString ''openid email profile'')"

definition idtWrongNonce :: token where
  "idtWrongNonce = [''nonce'' \<mapsto> JString ''OTHER'', ''email'' \<mapsto> JString ''alice@example.com'']"

definition idtNoNonce :: token where
  "idtNoNonce = [''email'' \<mapsto> JString ''alice@example.com'']"

definition idtNumberNonce :: token where
  "idtNumberNonce = [''nonce'' \<mapsto> JNumber 7, ''email'' \<mapsto> JString ''alice@example.com'']"

definition idtGood :: token where
  "idtGood = [''nonce'' \<mapsto> JString ''NONCE1'', ''email'' \<mapsto> JString ''alice@example.com'',
              ''name'' \<mapsto> JString ''Alice'']"

definition parseTable :: "string \<Rightarrow> jwk list \<Rightarrow> error + token" where
  "parseTable s ks =
     (if s = ''code-good'' then Inr codeGood
      else if s = ''code-nopkce'' then Inr codeNoPkce
      else if s = ''code-emptyhash'' then Inr codeEmptyHash
      else if s = ''session-empty'' then Inr sessionEmpty
      else if s = ''session-alice'' then Inr sessionAlice
      else if s = ''authreq-openid'' then Inr authReqOpenid
      else if s = ''authreq-full'' then Inr authReqFull
      else if s = ''idt-wrong-nonce'' then Inr idtWrongNonce
      else if s = ''idt-no-nonce'' then Inr idtNoNonce
      else if s = ''idt-number-nonce'' then Inr idtNumberNonce
      else if s = ''idt-good'' then Inr idtGood
      else Inl ''failed to parse token'')"

definition env0 :: env where
  "env0 = \<lparr>Prefix = ''obligator'', RootUri = ''https://auth.example'',
           JWKSet = [JWK ''k1''], PublicJwks = [JWK ''k1''],
           ForwardAuthPassthrough = True, OuterErr = None, Now = 1000 * Second,
           SHA256 = (\<lambda>s. ''sha:'' @ s), Base64RawURL = (\<lambda>s. ''b64:'' @ s),
           urlParse = (\<lambda>s. Inr \<lparr>URLHost = takeWhile (\<lambda>c. c \<noteq> CHR ''/'') (drop 8 s)\<rparr>),
           PublicSetOf = Inr, jwtParse = parseTable,
           jwtSign = (\<lambda>tok k. Inr (''signed:'' @ stringClaim tok ''sub'')),
           BuildError = (\<lambda>claims. None),
           EncodeTokenResponse = (\<lambda>res. AccessToken res @ '' '' @ IdToken res),
           claimFromToken = (\<lambda>name tok. stringClaim tok name),
           addLoginToCookie = (\<lambda>v clientId login.
              Inr \<lparr>CookieName = ''obligatorlogin_key'', CookieValue = v @ ''+'' @ clientId,
                   MaxAge = 0\<rparr>),
           Hash = (\<lambda>s. ''hash:'' @ s), DisplayName = ''obligator'',
           ProviderLogoMap = Map.empty, SortSlice = (\<lambda>ls. ls),
           GetOAuth2Providers = Inr [], GetSmtpConfigError = None,
           setJwtCookie = (\<lambda>tok name maxAge w r.
              SetCookie w \<lparr>CookieName = name, CookieValue = ''signed-envelope'', MaxAge = maxAge\<rparr>),
           setReturnUriCookie = (\<lambda>uri w.
              SetCookie w \<lparr>CookieName = ''obligatorreturn_uri'', CookieValue = uri, MaxAge = 0\<rparr>),
           ExecuteTemplate = (\<lambda>name data. (''<html>'', None))\<rparr>"

definition w0 :: response where
  "w0 = \<lparr>Status = 0, SetCookies = [], Headers = [], Body = []\<rparr>"

definition request0 :: request where
  "request0 = \<lparr>Method = ''POST'', Host = ''auth.example'', URLPath = ''/'', RawQuery = [],
               Form = (\<lambda>k. []), Cookies = Map.empty\<rparr>"

definition draws0 :: "nat list" where
  "draws0 = [11, 48, 85, 122, 159, 196, 33, 70, 107, 144, 181, 18, 55, 92, 129, 166, 3, 40, 77, 114, 151, 188, 25, 62, 99, 136, 173, 10, 47, 84, 121, 158, 195, 32, 69, 106, 143, 180, 17, 54, 91, 128, 165, 2, 39, 76, 113, 150, 187, 24, 61, 98, 135, 172, 9, 46, 83, 120, 157, 194, 31, 68, 105, 142]"

definition formOf :: "(string \<times> string) list \<Rightarrow> string \<Rightarrow> string list" where
  "formOf kvs key = map snd (filter (\<lambda>kv. fst kv = key) kvs)"

definition tokenGood :: request where
  "tokenGood = request0\<lparr>URLPath := ''/token'',
                 Form := formOf [(''code'', ''code-good''), (''code_verifier'', ''v1'')]\<rparr>"

definition tokenWrongVerifier :: request where
  "tokenWrongVerifier = request0\<lparr>URLPath := ''/token'',
                 Form := formOf [(''code'', ''code-good''), (''code_verifier'', ''v2'')]\<rparr>"

definition tokenStrayVerifier :: request where
  "tokenStrayVerifier = request0\<lparr>URLPath := ''/token'',
                 Form := formOf [(''code'', ''code-nopkce''), (''code_verifier'', ''v1'')]\<rparr>"

definition tokenNoVerifier :: request where
  "tokenNoVerifier = request0\<lparr>URLPath := ''/token'',
                 Form := formOf [(''code'', ''code-emptyhash'')]\<rparr>"

definition validateEmpty :: request where
  "validateEmpty = request0\<lparr>Method := ''GET'', URLPath := ''/validate'',
                 Cookies := [''obligatorlogin_key'' \<mapsto> ''session-empty'']\<rparr>"

definition approveFull :: request where
  "approveFull = request0\<lparr>URLPath := ''/approve'',
     Form := formOf [(''identity_id'', ''alice@example.com'')],
     Cookies := [''obligatorlogin_key'' \<mapsto> ''session-alice'',
                 ''obligatorauth_request'' \<mapsto> ''authreq-full'']\<rparr>"

definition approveOpenid :: request where
  "approveOpenid = request0\<lparr>URLPath := ''/approve'',
     Form := formOf [(''identity_id'', ''alice@example.com'')],
     Cookies := [''obligatorlogin_key'' \<mapsto> ''session-alice'',
                 ''obligatorauth_request'' \<mapsto> ''authreq-openid'']\<rparr>"

definition approveForeign :: request where
  "approveForeign = request0\<lparr>URLPath := ''/approve'',
     Form := formOf [(''identity_id'', ''mallory@example.com'')],
     Cookies := [''obligatorlogin_key'' \<mapsto> ''session-alice'',
                 ''obligatorauth_request'' \<mapsto> ''authreq-full'']\<rparr>"

definition authMismatch :: request where
  "authMismatch = request0\<lparr>Method := ''GET'', URLPath := ''/auth'',
     Form := formOf [(''client_id'', ''https://rp.example''),
                     (''redirect_uri'', ''https://evil.example/cb''),
                     (''response_type'', ''code'')]\<rparr>"

text \<open>The upstream side: two providers, the envelopes of two logins, a network that echoes.\<close>

definition google :: OAuth2Provider where
  "google = \<lparr>provID = ''google'', provName = ''Google'', provURI = ''https://accounts.google.com'',
             provClientID = ''client-1'', provClientSecret = ''secret-1'',
             provAuthorizationURI = [], provTokenURI = [], provScope = [],
             provOpenIDConnect = True\<rparr>"

definition github :: OAuth2Provider where
  "github = \<lparr>provID = ''github'', provName = ''GitHub'', provURI = ''https://github.com'',
             provClientID = ''client-2'', provClientSecret = ''secret-2'',
             provAuthorizationURI = ''https://github.com/login/oauth/authorize'',
             provTokenURI = ''https://github.com/login/oauth/access_token'', provScope = ''user:email'',
             provOpenIDConnect = False\<rparr>"

definition upReqGoogle :: token where
  "upReqGoogle = [''provider_id'' \<mapsto> JString ''google'', ''state'' \<mapsto> JString ''ST1'',
                  ''nonce'' \<mapsto> JString ''NONCE1'', ''pkce_code_verifier'' \<mapsto> JString ''V1'']"

definition upReqGoogle2 :: token where
  "upReqGoogle2 = upReqGoogle(''state'' \<mapsto> JString ''ST2'')"

definition upReqGithub :: token where
  "upReqGithub = [''provider_id'' \<mapsto> JString ''github'', ''state'' \<mapsto> JString ''ST3'',
                  ''nonce'' \<mapsto> JString ''NONCE3'', ''pkce_code_verifier'' \<mapsto> JString ''V3'']"

definition up0 :: upstream where
  "up0 = \<lparr>ParseJWT = (\<lambda>s. if s = ''upreq-google'' then Inr upReqGoogle
                          else if s = ''upreq-google-2'' then Inr upReqGoogle2
                          else if s = ''upreq-github'' then Inr upReqGithub
                          else Inl ''failed to parse token''),
          GetOAuth2ProviderByID = (\<lambda>i. if i = ''google'' then Inr google
                          else if i = ''github'' then Inr github
                          else Inl ''no such provider''),
          GetMeta = (\<lambda>i. Inr \<lparr>Issuer = ''https://accounts.google.com'',
                               AuthorizationEndpoint = ''https://accounts.google.com/o/oauth2/v2/auth'',
                               TokenEndpoint = ''https://oauth2.googleapis.com/token'',
                               UserinfoEndpoint = [], JwksUri = []\<rparr>),
          GetKeyset = (\<lambda>i. Inr [JWK ''g1'']),
          ValuesEncode = (\<lambda>kvs. concat (map (\<lambda>kv. fst kv @ ''='' @ snd kv @ ''&'') kvs)),
          httpDo = (\<lambda>q. if upMethod q = ''POST'' then Inr \<lparr>StatusCode = 200, RespBody = upBody q\<rparr>
                          else Inr \<lparr>StatusCode = 401, RespBody = []\<rparr>),
          DecodeTokenResponse = (\<lambda>s. Inr \<lparr>AccessToken = ''access-1'', TokenType = ''bearer'',
                               ExpiresIn = 3600,
                               IdToken = takeWhile (\<lambda>c. c \<noteq> CHR ''&'') (drop 5 s)\<rparr>),
          DecodeGitHubEmails = (\<lambda>s. Inr []),
          IsOpenIDToken = (\<lambda>t. True),
          GetUsers = Inr [],
          GetConfigPublic = Inr True,
          validUser = (\<lambda>email users. User email \<in> set users),
          domainToUri = (\<lambda>h. ''https://'' @ h),
          returnUriOf = Inr,
          addIdentToCookie = (\<lambda>host v ident.
             Inr \<lparr>CookieName = ''obligatorlogin_key'',
                  CookieValue = v @ ''|'' @ Id ident @ ''|'' @ ProviderName ident, MaxAge = 0\<rparr>),
          setLoginCookieError = (\<lambda>c. None)\<rparr>"

definition callbackRequest :: "string \<Rightarrow> string \<Rightarrow> string \<Rightarrow> request" where
  "callbackRequest code state envelope =
     request0\<lparr>Method := ''GET'', URLPath := ''/callback'',
       Form := formOf [(''code'', code), (''state'', state)],
       Cookies := [''obligatorupstream_oauth2_request'' \<mapsto> envelope,
                   ''obligatorreturn_uri'' \<mapsto> ''/auth?client_id=https://rp.example'']\<rparr>"

section \<open>The response writer\<close>

lemma Status_WriteHeader [simp]: "Status (WriteHeader w code) = (if Status w = 0 then code else Status w)"
  by (simp add: WriteHeader_def)

lemma Status_WriteString [simp]: "Status (WriteString w s) = (if Status w = 0 then 200 else Status w)"
  by (simp add: WriteString_def Let_def)

lemma Status_HeaderSet [simp]: "Status (HeaderSet w k v) = Status w"
  by (simp add: HeaderSet_def)

lemma Status_SetCookie [simp]: "Status (SetCookie w c) = Status w"
  by (simp add: SetCookie_def)

lemma Status_Redirect [simp]: "Status (Redirect w url code) = (if Status w = 0 then code else Status w)"
  by (simp add: Redirect_def)

lemma SetCookies_WriteHeader [simp]: "SetCookies (WriteHeader w code) = SetCookies w"
  by (simp add: WriteHeader_def)

lemma SetCookies_WriteString [simp]: "SetCookies (WriteString w s) = SetCookies w"
  by (simp add: WriteString_def Let_def)

lemma SetCookies_HeaderSet [simp]: "SetCookies (HeaderSet w k v) = SetCookies w"
  by (simp add: HeaderSet_def)

lemma SetCookies_Redirect [simp]: "SetCookies (Redirect w url code) = SetCookies w"
  by (simp add: Redirect_def)

lemma SetCookies_SetCookie [simp]:
  "SetCookies (SetCookie w c) = (if Status w = 0 then SetCookies w @ [c] else SetCookies w)"
  by (simp add: SetCookie_def)

section \<open>PKCE data: the generated pair\<close>

lemma chars_unreserved: "\<forall>c \<in> set chars. unreserved c"
  by (simp add: chars_def unreserved_def)

lemma verifierLoop_result:
  "verifierLoop randInt i verifier g = (Returns (v, None), g') \<Longrightarrow> i \<le> 64 \<Longrightarrow>
   length v = length verifier + (64 - i) \<and> set v \<subseteq> set verifier \<union> set chars"
proof (induction randInt i verifier g rule: verifierLoop.induct)
  case (1 randInt i verifier g)
  show ?case
  proof (cases "i < 64")
    case False
    with "1.prems" show ?thesis
      by (simp add: verifierLoop.simps)
  next
    case True
    obtain res g1 where draw: "randInt g (length chars) = (res, g1)"
      by (cases "randInt g (length chars)")
    show ?thesis
    proof (cases res)
      case (Inl err)
      with True draw "1.prems" show ?thesis
        by (simp add: verifierLoop.simps)
    next
      case (Inr randIndex)
      show ?thesis
      proof (cases "randIndex < length chars")
        case False
        with True draw Inr "1.prems" show ?thesis
          by (simp add: verifierLoop.simps)
      next
        case inrange: True
        from True draw Inr inrange "1.prems"
        have rec: "verifierLoop randInt (i + 1) (verifier @ [chars ! randIndex]) g1 = (Returns (v, None), g')"
          by (simp add: verifierLoop.simps)
        have "length v = length (verifier @ [chars ! randIndex]) + (64 - (i + 1))
              \<and> set v \<subseteq> set (verifier @ [chars ! randIndex]) \<union> set chars"
          using "1.IH" [OF True draw [symmetric] _ inrange rec] Inr True by simp
        moreover have "chars ! randIndex \<in> set chars"
          using inrange by simp
        ultimately show ?thesis
          using True by auto
      qed
    qed
  qed
qed

text \<open>
  C6. Every PKCE pair (challenge, verifier) that \<^verbatim>\<open>GeneratePKCEData\<close> returns has
  challenge = base64url-nopad(SHA-256(verifier)), a verifier of exactly 64 characters, and
  every character of the verifier in the unreserved set \<^verbatim>\<open>[A-Za-z0-9-._~]\<close>.
\<close>

theorem GeneratePKCEData_pair:
  assumes "GeneratePKCEData env randInt g = (Returns (challenge, verifier, None), g')"
  shows "challenge = Base64RawURL env (SHA256 env verifier)
         \<and> length verifier = 64
         \<and> (\<forall>c \<in> set verifier. unreserved c)"
proof -
  from assms have loop: "verifierLoop randInt 0 [] g = (Returns (verifier, None), g')"
    and ch: "challenge = GeneratePKCECodeChallenge env verifier"
    by (auto simp: GeneratePKCEData_def GeneratePKCECodeVerifier_def
             split: prod.splits go.splits option.splits)
  from verifierLoop_result [OF loop] have "length verifier = 64" and "set verifier \<subseteq> set chars"
    by simp_all
  with ch chars_unreserved show ?thesis
    by (auto simp: GeneratePKCECodeChallenge_def)
qed

theorem GeneratePKCEData_pair_witness:
  "GeneratePKCEData env0 listReader draws0 =
     (Returns (''b64:sha:bMjUr_x4FcNiTq.y3EbMjUp-x4FaLiTq.w3EbMhSp-x2DaLiToZw3E9KhSp-v2Da'',
               ''bMjUr_x4FcNiTq.y3EbMjUp-x4FaLiTq.w3EbMhSp-x2DaLiToZw3E9KhSp-v2Da'', None), [])
   \<and> length ''bMjUr_x4FcNiTq.y3EbMjUp-x4FaLiTq.w3EbMhSp-x2DaLiToZw3E9KhSp-v2Da'' = 64
   \<and> list_all unreserved ''bMjUr_x4FcNiTq.y3EbMjUp-x4FaLiTq.w3EbMhSp-x2DaLiToZw3E9KhSp-v2Da''"
proof -
  have run: "GeneratePKCEData env0 listReader draws0 =
     (Returns (''b64:sha:bMjUr_x4FcNiTq.y3EbMjUp-x4FaLiTq.w3EbMhSp-x2DaLiToZw3E9KhSp-v2Da'',
               ''bMjUr_x4FcNiTq.y3EbMjUp-x4FaLiTq.w3EbMhSp-x2DaLiToZw3E9KhSp-v2Da'', None), [])"
    by (simp add: GeneratePKCEData_def GeneratePKCECodeVerifier_def verifierLoop.simps draws0_def
          chars_def GeneratePKCECodeChallenge_def env0_def)
  from GeneratePKCEData_pair [OF run] run show ?thesis
    unfolding list_all_iff by blast
qed

section \<open>The token endpoint: PKCE\<close>

text \<open>
  C1, as the code has it. In a POST to \<^verbatim>\<open>/token\<close> whose code envelope parses and carries a
  \<^verbatim>\<open>pkce_code_challenge\<close>: when the challenge is not the empty string, the request succeeds
  (status 200) only if base64url-nopad(SHA-256(v)) equals the challenge, where v is the value
  \<^verbatim>\<open>r.Form.Get("code_verifier")\<close> reads, the empty string when no \<^verbatim>\<open>code_verifier\<close> is
  supplied, and a mismatch is answered with 401; when the challenge is the empty string, a
  non-empty \<^verbatim>\<open>code_verifier\<close> is answered with 401.
\<close>

theorem token_pkce:
  assumes parsed: "jwtParse env (FormGet r ''code'') (PublicJwks env) = Inr code"
      and chall: "code ''pkce_code_challenge'' = Some pkceCodeChallenge"
      and fresh: "Status w = 0"
  shows "(pkceCodeChallenge \<noteq> JString [] \<longrightarrow>
            (Status (tokenHandler env r w) = 200 \<longrightarrow>
               pkceCodeChallenge = JString (Base64RawURL env (SHA256 env (FormGet r ''code_verifier''))))
          \<and> (pkceCodeChallenge \<noteq> JString (Base64RawURL env (SHA256 env (FormGet r ''code_verifier''))) \<longrightarrow>
               Status (tokenHandler env r w) = 401))
       \<and> (pkceCodeChallenge = JString [] \<longrightarrow> FormGet r ''code_verifier'' \<noteq> [] \<longrightarrow>
            Status (tokenHandler env r w) = 401)"
  using assms
  by (auto simp: tokenHandler_def GeneratePKCECodeChallenge_def Let_def
           split: option.splits jval.splits)

theorem token_pkce_witness:
  "Status (tokenHandler env0 tokenGood w0) = 200
   \<and> Status (tokenHandler env0 tokenWrongVerifier w0) = 401
   \<and> Status (tokenHandler env0 tokenStrayVerifier w0) = 401"
proof -
  have good: "Status (tokenHandler env0 tokenGood w0) = 200"
    by (simp add: tokenHandler_def tokenIssue_def tokenGood_def request0_def formOf_def FormGet_def
          env0_def parseTable_def codeGood_def GeneratePKCECodeChallenge_def Key0_def Build_def w0_def)
  have wrong: "Status (tokenHandler env0 tokenWrongVerifier w0) = 401"
    using token_pkce [of env0 tokenWrongVerifier codeGood "JString ''b64:sha:v1''" w0]
    by (simp add: tokenWrongVerifier_def request0_def formOf_def FormGet_def env0_def
          parseTable_def codeGood_def w0_def)
  have stray: "Status (tokenHandler env0 tokenStrayVerifier w0) = 401"
    using token_pkce [of env0 tokenStrayVerifier codeNoPkce "JString []" w0]
    by (simp add: tokenStrayVerifier_def request0_def formOf_def FormGet_def env0_def
          parseTable_def codeNoPkce_def w0_def)
  from good wrong stray show ?thesis
    by simp
qed

text \<open>
  C1 as stated fails: the handler never tests that a \<^verbatim>\<open>code_verifier\<close> is supplied. A code
  envelope whose challenge is base64url-nopad(SHA-256("")), which is not the empty string, is
  redeemed by a request with no \<^verbatim>\<open>code_verifier\<close> parameter at all: the response is 200.
\<close>

theorem token_pkce_not_supplied_counterexample:
  "Form tokenNoVerifier ''code_verifier'' = []
   \<and> jwtParse env0 (FormGet tokenNoVerifier ''code'') (PublicJwks env0) = Inr codeEmptyHash
   \<and> codeEmptyHash ''pkce_code_challenge'' = Some (JString (Base64RawURL env0 (SHA256 env0 [])))
   \<and> Base64RawURL env0 (SHA256 env0 []) \<noteq> []
   \<and> Status (tokenHandler env0 tokenNoVerifier w0) = 200"
  by (simp add: tokenHandler_def tokenIssue_def tokenNoVerifier_def request0_def formOf_def
        FormGet_def env0_def parseTable_def codeEmptyHash_def GeneratePKCECodeChallenge_def
        Key0_def Build_def w0_def)

section \<open>The validator: an empty identity list\<close>

text \<open>
  C9. When the login-key cookie parses and verifies and its \<^verbatim>\<open>identities\<close> claim is an empty
  list, \<^verbatim>\<open>validate\<close> reads \<^verbatim>\<open>tokIdents[0]\<close> with no check of the length: the index is out
  of range and the function panics, in passthrough mode as well.
\<close>

theorem validate_empty_identities:
  assumes "Cookies r (Prefix env @ ''login_key'') = Some v"
      and "PublicSetOf env (JWKSet env) = Inr publicJwks"
      and "jwtParse env v publicJwks = Inr parsed"
      and "parsed ''identities'' = Some (JIdentities [])"
  shows "validate env r = Panics ''index out of range [0] with length 0''"
  using assms by (simp add: validate_def Cookie_def Let_def)

theorem validate_empty_identities_witness:
  "validate env0 validateEmpty = Panics ''index out of range [0] with length 0''"
  using validate_empty_identities [of validateEmpty env0 "''session-empty''" "[JWK ''k1'']" sessionEmpty]
  by (simp add: validateEmpty_def request0_def env0_def parseTable_def sessionEmpty_def)

section \<open>Evaluating the concrete world\<close>

lemmas world_defs = Let_def env0_def request0_def formOf_def FormGet_def Cookie_def parseTable_def
  w0_def sessionAlice_def alice_def authReqOpenid_def authReqFull_def stringClaim_def

lemmas up_defs = Let_def env0_def up0_def request0_def formOf_def FormGet_def Cookie_def
  parseTable_def w0_def callbackRequest_def stringClaim_def google_def github_def
  upReqGoogle_def upReqGoogle2_def upReqGithub_def

lemma callback_cookie:
  "Cookie (callbackRequest code state envelope) (Prefix env0 @ ''upstream_oauth2_request'') = Inr envelope"
  by (simp add: up_defs)

lemma callback_envelopes:
  "ParseJWT up0 ''upreq-google'' = Inr upReqGoogle"
  "ParseJWT up0 ''upreq-github'' = Inr upReqGithub"
  by (simp_all add: up0_def)

lemma callback_providers:
  "GetOAuth2ProviderByID up0 (claimFromToken env0 ''provider_id'' upReqGoogle) = Inr google"
  "GetOAuth2ProviderByID up0 (claimFromToken env0 ''provider_id'' upReqGithub) = Inr github"
  by (simp_all add: up_defs)

lemmas callback_start = callbackHandler_def callbackFrom_def callback_cookie callback_envelopes
  callback_providers

lemma exchange_google:
  "callbackExchange env0 up0 (callbackRequest ''idt-wrong-nonce'' state envelope) google upReqGoogle w0 =
     Inr \<lparr>AccessToken = ''access-1'', TokenType = ''bearer'', ExpiresIn = 3600,
          IdToken = ''idt-wrong-nonce''\<rparr>"
  "callbackExchange env0 up0 (callbackRequest ''idt-no-nonce'' state envelope) google upReqGoogle w0 =
     Inr \<lparr>AccessToken = ''access-1'', TokenType = ''bearer'', ExpiresIn = 3600,
          IdToken = ''idt-no-nonce''\<rparr>"
  "callbackExchange env0 up0 (callbackRequest ''idt-number-nonce'' state envelope) google upReqGoogle w0 =
     Inr \<lparr>AccessToken = ''access-1'', TokenType = ''bearer'', ExpiresIn = 3600,
          IdToken = ''idt-number-nonce''\<rparr>"
  "callbackExchange env0 up0 (callbackRequest ''idt-good'' state envelope) google upReqGoogle w0 =
     Inr \<lparr>AccessToken = ''access-1'', TokenType = ''bearer'', ExpiresIn = 3600,
          IdToken = ''idt-good''\<rparr>"
  by (simp_all add: callbackExchange_def up_defs)

section \<open>The authorization endpoint: client and redirect hosts\<close>

text \<open>
  C4. A GET \<^verbatim>\<open>/auth\<close> in which \<^verbatim>\<open>client_id\<close> and \<^verbatim>\<open>redirect_uri\<close> are both present and
  parse as URIs, but with different hosts, is answered with status 400, and no cookie is set:
  the \<^verbatim>\<open>Set-Cookie\<close> headers of the response are those it had before the handler ran.
\<close>

theorem auth_host_mismatch:
  assumes "FormGet r ''client_id'' \<noteq> []" and "FormGet r ''redirect_uri'' \<noteq> []"
      and "urlParse env (FormGet r ''client_id'') = Inr parsedClientIdUri"
      and "urlParse env (FormGet r ''redirect_uri'') = Inr parsedRedirectUri"
      and "URLHost parsedClientIdUri \<noteq> URLHost parsedRedirectUri"
      and "Status w = 0"
  shows "Status (authHandler env r w) = 400 \<and> SetCookies (authHandler env r w) = SetCookies w"
  using assms by (simp add: authHandler_def ParseAuthRequest_def Let_def)

theorem auth_host_mismatch_witness:
  "Status (authHandler env0 authMismatch w0) = 400 \<and> SetCookies (authHandler env0 authMismatch w0) = []"
  using auth_host_mismatch [of authMismatch env0 "\<lparr>URLHost = ''rp.example''\<rparr>"
          "\<lparr>URLHost = ''evil.example''\<rparr>" w0]
  by (simp add: authMismatch_def world_defs)

section \<open>The approval endpoint: the tokens of a successful run\<close>

lemma scopeLoop_mem:
  "scopeLoop scopeParts (e, p) = (e \<or> ''email'' \<in> set scopeParts, p \<or> ''profile'' \<in> set scopeParts)"
  by (induction scopeParts arbitrary: e p) auto

lemma idToken_fixed:
  "map_of (rev (idTokenClaims env identId identity a clientId t)) ''sub'' = Some (JString identId)"
  "map_of (rev (idTokenClaims env identId identity a clientId t)) ''aud'' = Some (JStrings [clientId])"
  "map_of (rev (idTokenClaims env identId identity a clientId t)) ''iat'' = Some (JTime t)"
  "map_of (rev (idTokenClaims env identId identity a clientId t)) ''exp'' = Some (JTime (t + 24 * Hour))"
  "map_of (rev (idTokenClaims env identId identity a clientId t)) ''nonce'' = Some (JString (claimFromToken env ''nonce'' a))"
  by (simp_all add: idTokenClaims_def Let_def)

lemma idToken_email:
  "map_of (rev (idTokenClaims env identId identity a clientId t)) ''email'' =
     (if ''email'' \<in> set (Split (claimFromToken env ''scope'' a) CHR '' '')
      then Some (JString (Email identity)) else None)"
  "map_of (rev (idTokenClaims env identId identity a clientId t)) ''email_verified'' =
     (if ''email'' \<in> set (Split (claimFromToken env ''scope'' a) CHR '' '')
      then Some (JBool (EmailVerified identity)) else None)"
  by (simp_all add: idTokenClaims_def Let_def scopeLoop_mem)

lemma idToken_name:
  "map_of (rev (idTokenClaims env identId identity a clientId t)) ''name'' =
     (if ''profile'' \<in> set (Split (claimFromToken env ''scope'' a) CHR '' '') \<and> Name identity \<noteq> []
      then Some (JString (Name identity)) else None)"
  by (simp add: idTokenClaims_def Let_def scopeLoop_mem)

lemma approveGrant_success:
  assumes "approveGrant env w loginKeyCookie a identId identity = (w', built)"
      and "Status w = 0" and "Status w' = 303"
  shows "\<exists>key signedIdToken.
           Key0 (JWKSet env) = Some key
         \<and> jwtSign env (map_of (rev (idTokenClaims env identId identity a (claimFromToken env ''client_id'' a) (Now env)))) key = Inr signedIdToken
         \<and> built = Some (map_of (rev (idTokenClaims env identId identity a (claimFromToken env ''client_id'' a) (Now env))),
                          map_of (rev (codeClaims env (map_of (rev (idTokenClaims env identId identity a (claimFromToken env ''client_id'' a) (Now env)))) signedIdToken a (Now env))))"
  using assms
  by (auto simp: approveGrant_def Build_def Let_def split: sum.splits option.splits if_splits)

lemma approveRun_success:
  assumes "approveRun env r w = Returns (w', built)" and "Status w = 0" and "Status w' = 303"
  shows "\<exists>loginKeyCookie parsedLoginKey a identity.
           Cookies r (Prefix env @ ''login_key'') = Some loginKeyCookie
         \<and> jwtParse env loginKeyCookie (PublicJwks env) = Inr parsedLoginKey
         \<and> getJwtFromCookie env (Prefix env @ ''auth_request'') r = Inr a
         \<and> ownedIdentity parsedLoginKey (FormGet r ''identity_id'') = Some identity
         \<and> approveGrant env (clearCookie (Prefix env @ ''auth_request'') w) loginKeyCookie a
              (FormGet r ''identity_id'') identity = (w', built)"
  using assms
  by (auto simp: approveRun_def Cookie_def Let_def clearCookie_def
           split: sum.splits option.splits if_splits)

text \<open>
  C7. When a POST to \<^verbatim>\<open>/approve\<close> succeeds (status 303), the ID token built has \<^verbatim>\<open>sub\<close> equal
  to the submitted \<^verbatim>\<open>identity_id\<close>, \<^verbatim>\<open>aud\<close> equal to the one-element list of the
  \<^verbatim>\<open>client_id\<close> of the AuthRequest envelope, \<^verbatim>\<open>exp\<close> equal to \<^verbatim>\<open>iat\<close> plus 24 hours and the
  \<^verbatim>\<open>nonce\<close> of the AuthRequest envelope; it has the claims \<^verbatim>\<open>email\<close> and \<^verbatim>\<open>email_verified\<close>
  (those of the identity) if and only if \<^verbatim>\<open>email\<close> is among the space-separated parts of the
  scope, and the claim \<^verbatim>\<open>name\<close> if and only if \<^verbatim>\<open>profile\<close> is among them and the identity's
  name is not empty.
\<close>

theorem approve_id_token:
  assumes run: "approveRun env r w = Returns (w', built)"
      and fresh: "Status w = 0" and success: "Status w' = 303"
  shows "\<exists>loginKeyCookie parsedLoginKey parsedAuthReq identity idToken codeJwt.
           Cookies r (Prefix env @ ''login_key'') = Some loginKeyCookie
         \<and> jwtParse env loginKeyCookie (PublicJwks env) = Inr parsedLoginKey
         \<and> getJwtFromCookie env (Prefix env @ ''auth_request'') r = Inr parsedAuthReq
         \<and> ownedIdentity parsedLoginKey (FormGet r ''identity_id'') = Some identity
         \<and> built = Some (idToken, codeJwt)
         \<and> idToken ''sub'' = Some (JString (FormGet r ''identity_id''))
         \<and> idToken ''aud'' = Some (JStrings [claimFromToken env ''client_id'' parsedAuthReq])
         \<and> idToken ''iat'' = Some (JTime (Now env))
         \<and> idToken ''exp'' = Some (JTime (Now env + 24 * Hour))
         \<and> idToken ''nonce'' = Some (JString (claimFromToken env ''nonce'' parsedAuthReq))
         \<and> idToken ''email'' =
             (if ''email'' \<in> set (Split (claimFromToken env ''scope'' parsedAuthReq) CHR '' '')
              then Some (JString (Email identity)) else None)
         \<and> idToken ''email_verified'' =
             (if ''email'' \<in> set (Split (claimFromToken env ''scope'' parsedAuthReq) CHR '' '')
              then Some (JBool (EmailVerified identity)) else None)
         \<and> idToken ''name'' =
             (if ''profile'' \<in> set (Split (claimFromToken env ''scope'' parsedAuthReq) CHR '' '')
                 \<and> Name identity \<noteq> []
              then Some (JString (Name identity)) else None)"
proof -
  from approveRun_success [OF run fresh success]
  obtain loginKeyCookie parsedLoginKey a identity where
    c: "Cookies r (Prefix env @ ''login_key'') = Some loginKeyCookie"
    and p: "jwtParse env loginKeyCookie (PublicJwks env) = Inr parsedLoginKey"
    and g: "getJwtFromCookie env (Prefix env @ ''auth_request'') r = Inr a"
    and i: "ownedIdentity parsedLoginKey (FormGet r ''identity_id'') = Some identity"
    and grant: "approveGrant env (clearCookie (Prefix env @ ''auth_request'') w) loginKeyCookie a
                  (FormGet r ''identity_id'') identity = (w', built)"
    by blast
  have fresh': "Status (clearCookie (Prefix env @ ''auth_request'') w) = 0"
    using fresh by (simp add: clearCookie_def)
  from approveGrant_success [OF grant fresh' success]
  obtain codeJwt where
    b: "built = Some (map_of (rev (idTokenClaims env (FormGet r ''identity_id'') identity a
                        (claimFromToken env ''client_id'' a) (Now env))), codeJwt)"
    by blast
  show ?thesis
    apply (intro exI conjI)
                apply (rule c)
               apply (rule p)
              apply (rule g)
             apply (rule i)
            apply (rule b)
           apply (rule idToken_fixed idToken_email idToken_name)+
    done
qed

lemma approveFull_run:
  "\<exists>w' built. approveRun env0 approveFull w0 = Returns (w', built) \<and> Status w' = 303"
  by (simp add: approveRun_def approveGrant_def approveFull_def getJwtFromCookie_def
        ownedIdentity_def clearCookie_def Build_def Key0_def world_defs)

theorem approve_id_token_witness:
  "claimOf (approveIdToken env0 approveFull w0) ''sub'' = Some (JString ''alice@example.com'')
   \<and> claimOf (approveIdToken env0 approveFull w0) ''aud'' = Some (JStrings [''https://rp.example''])
   \<and> claimOf (approveIdToken env0 approveFull w0) ''iat'' = Some (JTime (1000 * Second))
   \<and> claimOf (approveIdToken env0 approveFull w0) ''exp'' = Some (JTime (1000 * Second + 24 * Hour))
   \<and> claimOf (approveIdToken env0 approveFull w0) ''nonce'' = Some (JString ''N1'')
   \<and> claimOf (approveIdToken env0 approveFull w0) ''email'' = Some (JString ''alice@example.com'')
   \<and> claimOf (approveIdToken env0 approveFull w0) ''email_verified'' = Some (JBool True)
   \<and> claimOf (approveIdToken env0 approveFull w0) ''name'' = Some (JString ''Alice'')"
proof -
  from approveFull_run obtain w' built where
    run: "approveRun env0 approveFull w0 = Returns (w', built)" and success: "Status w' = 303"
    by blast
  have fresh: "Status w0 = 0"
    by (simp add: w0_def)
  from approve_id_token [OF run fresh success]
  obtain loginKeyCookie parsedLoginKey parsedAuthReq identity idToken codeJwt where
    c: "Cookies approveFull (Prefix env0 @ ''login_key'') = Some loginKeyCookie"
    and p: "jwtParse env0 loginKeyCookie (PublicJwks env0) = Inr parsedLoginKey"
    and g: "getJwtFromCookie env0 (Prefix env0 @ ''auth_request'') approveFull = Inr parsedAuthReq"
    and i: "ownedIdentity parsedLoginKey (FormGet approveFull ''identity_id'') = Some identity"
    and b: "built = Some (idToken, codeJwt)"
    and claims:
      "idToken ''sub'' = Some (JString (FormGet approveFull ''identity_id''))"
      "idToken ''aud'' = Some (JStrings [claimFromToken env0 ''client_id'' parsedAuthReq])"
      "idToken ''iat'' = Some (JTime (Now env0))"
      "idToken ''exp'' = Some (JTime (Now env0 + 24 * Hour))"
      "idToken ''nonce'' = Some (JString (claimFromToken env0 ''nonce'' parsedAuthReq))"
      "idToken ''email'' =
         (if ''email'' \<in> set (Split (claimFromToken env0 ''scope'' parsedAuthReq) CHR '' '')
          then Some (JString (Email identity)) else None)"
      "idToken ''email_verified'' =
         (if ''email'' \<in> set (Split (claimFromToken env0 ''scope'' parsedAuthReq) CHR '' '')
          then Some (JBool (EmailVerified identity)) else None)"
      "idToken ''name'' =
         (if ''profile'' \<in> set (Split (claimFromToken env0 ''scope'' parsedAuthReq) CHR '' '')
             \<and> Name identity \<noteq> []
          then Some (JString (Name identity)) else None)"
    by blast
  from c have lk: "loginKeyCookie = ''session-alice''"
    by (simp add: approveFull_def world_defs)
  from p lk have s: "parsedLoginKey = sessionAlice"
    by (simp add: env0_def env0_def parseTable_def)
  from g have a: "parsedAuthReq = authReqFull"
    by (simp add: getJwtFromCookie_def approveFull_def env0_def env0_def request0_def Cookie_def
          parseTable_def)
  from i s have ident: "identity = alice"
    by (simp add: ownedIdentity_def approveFull_def world_defs)
  have tok: "approveIdToken env0 approveFull w0 = Some idToken"
    using run b by (simp add: approveIdToken_def)
  show ?thesis
    using claims unfolding tok a ident
    by (simp add: claimOf_def approveFull_def world_defs)
qed

text \<open>
  C8 fails on the code. The builder of the code envelope sets \<^verbatim>\<open>Subject(idToken.Email())\<close>,
  and the ID token has an \<^verbatim>\<open>email\<close> claim only when \<^verbatim>\<open>email\<close> is among the parts of the scope.
  With the scope \<^verbatim>\<open>openid\<close> the approval of the identity with the email
  \<^verbatim>\<open>alice@example.com\<close> succeeds: the ID token has \<^verbatim>\<open>sub\<close> equal to the identity id and no
  \<^verbatim>\<open>email\<close>, the \<^verbatim>\<open>sub\<close> of the code envelope is the empty string, not the email of the
  approved identity, and the redirect carries the signed code (the signature of this world
  writes out the \<^verbatim>\<open>sub\<close> it signs).
\<close>

theorem approve_code_sub_empty:
  "map_option Status (returned (approveHandler env0 approveOpenid w0)) = Some 303
   \<and> map_option Headers (returned (approveHandler env0 approveOpenid w0)) =
       Some [(''Location'',
              ''https://rp.example/cb?client_id=https://rp.example&redirect_uri=https://rp.example/cb&code=signed:&state=S1&scope=openid'')]
   \<and> ownedIdentity sessionAlice (FormGet approveOpenid ''identity_id'') = Some alice
   \<and> Email alice = ''alice@example.com''
   \<and> claimOf (approveIdToken env0 approveOpenid w0) ''sub'' = Some (JString ''alice@example.com'')
   \<and> claimOf (approveIdToken env0 approveOpenid w0) ''email'' = None
   \<and> claimOf (approveCode env0 approveOpenid w0) ''sub'' = Some (JString [])
   \<and> claimOf (approveCode env0 approveOpenid w0) ''sub'' \<noteq> Some (JString (Email alice))"
  by (simp add: approveHandler_def returned_def approveIdToken_def approveCode_def claimOf_def
        approveRun_def approveGrant_def approveOpenid_def getJwtFromCookie_def
        ownedIdentity_def clearCookie_def Build_def Key0_def codeClaims_def idTokenClaims_def
        TokenEmail_def Redirect_def HeaderSet_def WriteHeader_def SetCookie_def world_defs)

section \<open>The approval endpoint: the AuthRequest cookie\<close>

text \<open>
  C10. In a POST to \<^verbatim>\<open>/approve\<close> with a valid session cookie, the deletion of the
  \<^verbatim>\<open>auth_request\<close> cookie is emitted before the identity is looked up: the response carries
  it in every case, also when the request fails with 403 because \<^verbatim>\<open>identity_id\<close> is not
  among the identities of the session.
\<close>

theorem approve_clears_auth_request:
  assumes post: "Method r = ''POST''"
      and cookie: "Cookies r (Prefix env @ ''login_key'') = Some loginKeyCookie"
      and valid: "jwtParse env loginKeyCookie (PublicJwks env) = Inr parsedLoginKey"
      and fresh: "Status w = 0"
  shows "\<exists>w'. approveHandler env r w = Returns w'
           \<and> \<lparr>CookieName = Prefix env @ ''auth_request'', CookieValue = [], MaxAge = - 1\<rparr>
               \<in> set (SetCookies w')
           \<and> (\<forall>parsedAuthReq.
                 getJwtFromCookie env (Prefix env @ ''auth_request'') r = Inr parsedAuthReq \<longrightarrow>
                 ownedIdentity parsedLoginKey (FormGet r ''identity_id'') = None \<longrightarrow>
                 Status w' = 403
                 \<and> SetCookies w' = SetCookies w @
                     [\<lparr>CookieName = Prefix env @ ''auth_request'', CookieValue = [], MaxAge = - 1\<rparr>])"
  using assms
  by (auto simp: approveHandler_def approveRun_def Cookie_def Let_def clearCookie_def approveGrant_def
           split: sum.splits option.splits prod.splits)

theorem approve_clears_auth_request_witness:
  "map_option Status (returned (approveHandler env0 approveForeign w0)) = Some 403
   \<and> map_option SetCookies (returned (approveHandler env0 approveForeign w0)) =
       Some [\<lparr>CookieName = ''obligatorauth_request'', CookieValue = [], MaxAge = - 1\<rparr>]"
proof -
  from approve_clears_auth_request [of approveForeign env0 "''session-alice''" sessionAlice w0]
  obtain w' where
    ret: "approveHandler env0 approveForeign w0 = Returns w'"
    and rest: "\<forall>parsedAuthReq.
       getJwtFromCookie env0 (Prefix env0 @ ''auth_request'') approveForeign = Inr parsedAuthReq \<longrightarrow>
       ownedIdentity sessionAlice (FormGet approveForeign ''identity_id'') = None \<longrightarrow>
       Status w' = 403
       \<and> SetCookies w' = SetCookies w0 @
           [\<lparr>CookieName = Prefix env0 @ ''auth_request'', CookieValue = [], MaxAge = - 1\<rparr>]"
    by (auto simp: approveForeign_def world_defs)
  have g: "getJwtFromCookie env0 (Prefix env0 @ ''auth_request'') approveForeign = Inr authReqFull"
    by (simp add: getJwtFromCookie_def approveForeign_def env0_def request0_def Cookie_def
          parseTable_def)
  have n: "ownedIdentity sessionAlice (FormGet approveForeign ''identity_id'') = None"
    by (simp add: ownedIdentity_def approveForeign_def world_defs)
  from rest g n have "Status w' = 403"
    and "SetCookies w' = [\<lparr>CookieName = ''obligatorauth_request'', CookieValue = [], MaxAge = - 1\<rparr>]"
    by (simp_all add: w0_def env0_def)
  with ret show ?thesis
    by (simp add: returned_def)
qed

section \<open>The callback: the nonce of the provider's ID token\<close>

text \<open>
  C2. In a \<^verbatim>\<open>/callback\<close> of an OpenID Connect provider that has reached the verified ID
  token: when the nonce of the ID token is a string different from the nonce of the
  UpstreamRequest envelope, the response is 403 and no \<^verbatim>\<open>Set-Cookie\<close> is added (the session
  cookie is not modified); when the nonce claim is missing or is not a string, the response
  is 400, with no \<^verbatim>\<open>Set-Cookie\<close> added either.
\<close>

theorem callback_nonce:
  assumes cookie: "Cookies r (Prefix env @ ''upstream_oauth2_request'') = Some upstreamAuthReqCookie"
      and envelope: "ParseJWT up upstreamAuthReqCookie = Inr parsedUpstreamAuthReq"
      and provider: "GetOAuth2ProviderByID up (claimFromToken env ''provider_id'' parsedUpstreamAuthReq)
                       = Inr oauth2Provider"
      and oidc: "provOpenIDConnect oauth2Provider"
      and exchange: "callbackExchange env up r oauth2Provider parsedUpstreamAuthReq w = Inr tokenRes"
      and keyset: "GetKeyset up (provID oauth2Provider) = Inr keyset"
      and verified: "jwtParse env (IdToken tokenRes) keyset = Inr providerOidcToken"
      and openid: "IsOpenIDToken up providerOidcToken"
      and fresh: "Status w = 0"
  shows "(\<forall>nonce. providerOidcToken ''nonce'' = Some (JString nonce) \<longrightarrow>
            claimFromToken env ''nonce'' parsedUpstreamAuthReq \<noteq> nonce \<longrightarrow>
            Status (callbackHandler env up r w) = 403
            \<and> SetCookies (callbackHandler env up r w) = SetCookies w)
       \<and> (providerOidcToken ''nonce'' = None \<longrightarrow>
            Status (callbackHandler env up r w) = 400
            \<and> SetCookies (callbackHandler env up r w) = SetCookies w)
       \<and> (\<forall>nonceClaim. providerOidcToken ''nonce'' = Some nonceClaim \<longrightarrow>
            (\<forall>nonce. nonceClaim \<noteq> JString nonce) \<longrightarrow>
            Status (callbackHandler env up r w) = 400
            \<and> SetCookies (callbackHandler env up r w) = SetCookies w)"
  using assms
  by (simp add: callbackHandler_def callbackFrom_def callbackVerify_def Cookie_def
           split: jval.splits)

theorem callback_nonce_witness:
  "Status (callbackHandler env0 up0 (callbackRequest ''idt-wrong-nonce'' ''ST1'' ''upreq-google'') w0) = 403
   \<and> SetCookies (callbackHandler env0 up0 (callbackRequest ''idt-wrong-nonce'' ''ST1'' ''upreq-google'') w0) = []
   \<and> Status (callbackHandler env0 up0 (callbackRequest ''idt-no-nonce'' ''ST1'' ''upreq-google'') w0) = 400
   \<and> Status (callbackHandler env0 up0 (callbackRequest ''idt-number-nonce'' ''ST1'' ''upreq-google'') w0) = 400"
proof -
  have wrong:
    "Status (callbackHandler env0 up0 (callbackRequest ''idt-wrong-nonce'' ''ST1'' ''upreq-google'') w0) = 403
     \<and> SetCookies (callbackHandler env0 up0 (callbackRequest ''idt-wrong-nonce'' ''ST1'' ''upreq-google'') w0) = []"
    using callback_nonce [where r = "callbackRequest ''idt-wrong-nonce'' ''ST1'' ''upreq-google''"
        and env = env0 and up = up0 and upstreamAuthReqCookie = "''upreq-google''"
        and parsedUpstreamAuthReq = upReqGoogle and oauth2Provider = google and w = w0
        and keyset = "[JWK ''g1'']" and providerOidcToken = idtWrongNonce,
        OF _ _ _ _ exchange_google(1)]
    by (simp add: up_defs idtWrongNonce_def)
  have missing:
    "Status (callbackHandler env0 up0 (callbackRequest ''idt-no-nonce'' ''ST1'' ''upreq-google'') w0) = 400"
    using callback_nonce [where r = "callbackRequest ''idt-no-nonce'' ''ST1'' ''upreq-google''"
        and env = env0 and up = up0 and upstreamAuthReqCookie = "''upreq-google''"
        and parsedUpstreamAuthReq = upReqGoogle and oauth2Provider = google and w = w0
        and keyset = "[JWK ''g1'']" and providerOidcToken = idtNoNonce,
        OF _ _ _ _ exchange_google(2)]
    by (simp add: up_defs idtNoNonce_def)
  have number:
    "Status (callbackHandler env0 up0 (callbackRequest ''idt-number-nonce'' ''ST1'' ''upreq-google'') w0) = 400"
    using callback_nonce [where r = "callbackRequest ''idt-number-nonce'' ''ST1'' ''upreq-google''"
        and env = env0 and up = up0 and upstreamAuthReqCookie = "''upreq-google''"
        and parsedUpstreamAuthReq = upReqGoogle and oauth2Provider = google and w = w0
        and keyset = "[JWK ''g1'']" and providerOidcToken = idtNumberNonce,
        OF _ _ _ _ exchange_google(3)]
    by (simp add: up_defs idtNumberNonce_def)
  from wrong missing number show ?thesis
    by simp
qed

section \<open>The callback: the state parameter\<close>

lemma getReturnUriCookie_cong:
  "Cookies r1 (Prefix env @ ''return_uri'') = Cookies r2 (Prefix env @ ''return_uri'') \<Longrightarrow>
   getReturnUriCookie env up r1 = getReturnUriCookie env up r2"
  by (simp add: getReturnUriCookie_def Cookie_def)

lemma getLoginCookie_cong:
  "Cookies r1 (Prefix env @ ''login_key'') = Cookies r2 (Prefix env @ ''login_key'') \<Longrightarrow>
   getLoginCookie env r1 = getLoginCookie env r2"
  by (simp add: getLoginCookie_def Cookie_def)

lemma callbackFinish_cong:
  assumes h: "Host r1 = Host r2"
      and c1: "getReturnUriCookie env up r1 = getReturnUriCookie env up r2"
      and c2: "getLoginCookie env r1 = getLoginCookie env r2"
  shows "callbackFinish env up r1 p email name w = callbackFinish env up r2 p email name w"
  unfolding callbackFinish_def h c1 c2 ..

lemma callbackExchange_cong:
  assumes h: "Host r1 = Host r2"
      and c: "FormGet r1 ''code'' = FormGet r2 ''code''"
      and v: "claimFromToken env ''pkce_code_verifier'' t1 = claimFromToken env ''pkce_code_verifier'' t2"
  shows "callbackExchange env up r1 p t1 w = callbackExchange env up r2 p t2 w"
  unfolding callbackExchange_def h c v ..

lemma callbackVerify_cong:
  assumes n: "claimFromToken env ''nonce'' t1 = claimFromToken env ''nonce'' t2"
  shows "callbackVerify env up p t1 tokenRes w = callbackVerify env up p t2 tokenRes w"
  unfolding callbackVerify_def n ..

text \<open>
  C5. The \<^verbatim>\<open>state\<close> generated at \<^verbatim>\<open>/login-oauth2\<close> is never checked at \<^verbatim>\<open>/callback\<close>: two
  requests that agree on the host, on every form value but \<^verbatim>\<open>state\<close> and on every cookie but
  the UpstreamRequest envelope, and whose envelopes agree on every claim but \<^verbatim>\<open>state\<close>, get
  the same response, whenever \<^verbatim>\<open>claimFromToken\<close> reads no other claim than the one it is
  asked for.
\<close>

theorem callback_ignores_state:
  assumes host: "Host r1 = Host r2"
      and form: "\<forall>key. key \<noteq> ''state'' \<longrightarrow> Form r1 key = Form r2 key"
      and cookies: "\<forall>name. name \<noteq> Prefix env @ ''upstream_oauth2_request'' \<longrightarrow>
                      Cookies r1 name = Cookies r2 name"
      and cookie1: "Cookies r1 (Prefix env @ ''upstream_oauth2_request'') = Some v1"
      and cookie2: "Cookies r2 (Prefix env @ ''upstream_oauth2_request'') = Some v2"
      and envelope1: "ParseJWT up v1 = Inr t1"
      and envelope2: "ParseJWT up v2 = Inr t2"
      and claims: "\<forall>name. name \<noteq> ''state'' \<longrightarrow> t1 name = t2 name"
      and reads: "\<forall>name t t'. t name = t' name \<longrightarrow> claimFromToken env name t = claimFromToken env name t'"
  shows "callbackHandler env up r1 w = callbackHandler env up r2 w"
proof -
  have code: "FormGet r1 ''code'' = FormGet r2 ''code''"
    using form by (simp add: FormGet_def)
  have agree: "claimFromToken env name t1 = claimFromToken env name t2" if "name \<noteq> ''state''" for name
  proof -
    from that claims have "t1 name = t2 name"
      by blast
    with reads show ?thesis
      by blast
  qed
  have prov: "claimFromToken env ''provider_id'' t1 = claimFromToken env ''provider_id'' t2"
    and ver: "claimFromToken env ''pkce_code_verifier'' t1 = claimFromToken env ''pkce_code_verifier'' t2"
    and non: "claimFromToken env ''nonce'' t1 = claimFromToken env ''nonce'' t2"
    using agree by simp_all
  have ret: "getReturnUriCookie env up r1 = getReturnUriCookie env up r2"
    using cookies by (intro getReturnUriCookie_cong) simp
  have login: "getLoginCookie env r1 = getLoginCookie env r2"
    using cookies by (intro getLoginCookie_cong) simp
  have "callbackFrom env up r1 t1 w = callbackFrom env up r2 t2 w"
    unfolding callbackFrom_def prov
      callbackExchange_cong [OF host code ver]
      callbackVerify_cong [OF non]
      callbackFinish_cong [OF host ret login] ..
  then show ?thesis
    by (simp add: callbackHandler_def Cookie_def cookie1 cookie2 envelope1 envelope2)
qed

theorem callback_ignores_state_witness:
  "callbackHandler env0 up0 (callbackRequest ''idt-good'' ''ST1'' ''upreq-google'') w0 =
   callbackHandler env0 up0 (callbackRequest ''idt-good'' ''ST2'' ''upreq-google-2'') w0
   \<and> Status (callbackHandler env0 up0 (callbackRequest ''idt-good'' ''ST1'' ''upreq-google'') w0) = 303"
proof -
  have same:
    "callbackHandler env0 up0 (callbackRequest ''idt-good'' ''ST1'' ''upreq-google'') w0 =
     callbackHandler env0 up0 (callbackRequest ''idt-good'' ''ST2'' ''upreq-google-2'') w0"
    using callback_ignores_state [where ?r1.0 = "callbackRequest ''idt-good'' ''ST1'' ''upreq-google''"
        and ?r2.0 = "callbackRequest ''idt-good'' ''ST2'' ''upreq-google-2''"
        and env = env0 and up = up0 and ?v1.0 = "''upreq-google''" and ?v2.0 = "''upreq-google-2''"
        and ?t1.0 = upReqGoogle and ?t2.0 = upReqGoogle2 and w = w0]
    by (simp add: up_defs)
  have verify:
    "callbackVerify env0 up0 google upReqGoogle
       \<lparr>AccessToken = ''access-1'', TokenType = ''bearer'', ExpiresIn = 3600, IdToken = ''idt-good''\<rparr> w0 =
       Inr (''alice@example.com'', ''Alice'')"
    by (simp add: callbackVerify_def TokenEmail_def TokenName_def idtGood_def up_defs)
  have finish: "callbackHandler env0 up0 (callbackRequest ''idt-good'' ''ST1'' ''upreq-google'') w0 =
      callbackFinish env0 up0 (callbackRequest ''idt-good'' ''ST1'' ''upreq-google'') google
        ''alice@example.com'' ''Alice'' w0"
    by (simp add: callback_start exchange_google verify)
  have "Status (callbackHandler env0 up0 (callbackRequest ''idt-good'' ''ST1'' ''upreq-google'') w0) = 303"
    unfolding finish
    by (simp add: callbackFinish_def getReturnUriCookie_def getLoginCookie_def
          deleteReturnUriCookie_def setLoginCookie_def clearCookie_def up_defs)
  with same show ?thesis
    by simp
qed

section \<open>The callback: an error of the profile fetch\<close>

text \<open>
  C3 fails on the code. With a plain OAuth2 provider whose profile fetch fails (here the
  provider answers 401, so \<^verbatim>\<open>GetProfile\<close> returns "Bad status getting profile"), the handler
  drops the error and goes on with an empty email: on a public server the response is the
  303 redirect, and it sets a session cookie to which an identity with an empty id has been
  added.
\<close>

theorem callback_profile_error_ignored:
  "GetProfile env0 up0 github ''access-1'' = ([], [], Some ''Bad status getting profile'')
   \<and> Status (callbackHandler env0 up0 (callbackRequest ''gh-code'' ''ST3'' ''upreq-github'') w0) = 303
   \<and> SetCookies (callbackHandler env0 up0 (callbackRequest ''gh-code'' ''ST3'' ''upreq-github'') w0) =
       [\<lparr>CookieName = ''obligatorreturn_uri'', CookieValue = [], MaxAge = - 1\<rparr>,
        \<lparr>CookieName = ''obligatorlogin_key'', CookieValue = ''||GitHub'', MaxAge = 0\<rparr>,
        \<lparr>CookieName = ''obligatorupstream_oauth2_request'', CookieValue = [], MaxAge = - 1\<rparr>]"
proof -
  have profile: "GetProfile env0 up0 github ''access-1'' = ([], [], Some ''Bad status getting profile'')"
    by (simp add: GetProfile_def up_defs)
  have exchange:
    "callbackExchange env0 up0 (callbackRequest ''gh-code'' ''ST3'' ''upreq-github'') github upReqGithub w0 =
       Inr \<lparr>AccessToken = ''access-1'', TokenType = ''bearer'', ExpiresIn = 3600, IdToken = ''gh-code''\<rparr>"
    by (simp add: callbackExchange_def up_defs)
  have verify:
    "callbackVerify env0 up0 github upReqGithub
       \<lparr>AccessToken = ''access-1'', TokenType = ''bearer'', ExpiresIn = 3600, IdToken = ''gh-code''\<rparr> w0 =
       Inr ([], [])"
    by (simp add: callbackVerify_def profile) (simp add: github_def)
  have finish: "callbackHandler env0 up0 (callbackRequest ''gh-code'' ''ST3'' ''upreq-github'') w0 =
      callbackFinish env0 up0 (callbackRequest ''gh-code'' ''ST3'' ''upreq-github'') github [] [] w0"
    by (simp add: callback_start exchange verify)
  have result:
    "Status (callbackFinish env0 up0 (callbackRequest ''gh-code'' ''ST3'' ''upreq-github'') github [] [] w0) = 303"
    "SetCookies (callbackFinish env0 up0 (callbackRequest ''gh-code'' ''ST3'' ''upreq-github'') github [] [] w0) =
       [\<lparr>CookieName = ''obligatorreturn_uri'', CookieValue = [], MaxAge = - 1\<rparr>,
        \<lparr>CookieName = ''obligatorlogin_key'', CookieValue = ''||GitHub'', MaxAge = 0\<rparr>,
        \<lparr>CookieName = ''obligatorupstream_oauth2_request'', CookieValue = [], MaxAge = - 1\<rparr>]"
    by (simp_all add: callbackFinish_def getReturnUriCookie_def getLoginCookie_def
          deleteReturnUriCookie_def setLoginCookie_def clearCookie_def up_defs)
  from profile result show ?thesis
    unfolding finish by (intro conjI)
qed

end
